theory Spec2Isabelle
  imports Complex_Main "HOL-Library.AList"
begin

section \<open>JavaScript values\<close>

text \<open>
  The operations dashboard (server.js, db/historical-data.js, workers/data-collector.js)
  works on parsed JSON payloads. A value is \<open>undefined\<close>, \<open>null\<close>, a boolean, a
  number, a string or an object; an object is the list of its own properties in
  insertion order. Numbers are rationals: every finite double is one, and the code
  only compares them with constants. Strings are byte lists (exact for ASCII text).
  Arrays, and the properties an object inherits from its prototype, are not modelled.
\<close>

datatype json =
    JUndefined
  | JNull
  | JBool bool
  | JNum rat
  | JStr string
  | JObj "(string \<times> json) list"

type_synonym props = "(string \<times> json) list"

text \<open>
  The conversions of the JavaScript runtime and of SQLite that the code calls and that
  are not defined here: \<open>Number.prototype.toString\<close>, the string-to-number
  conversion of a comparison, \<open>Date.prototype.toISOString\<close> and \<open>Date.parse\<close> on
  milliseconds since the epoch, and SQLite's \<open>CURRENT_TIMESTAMP\<close> text. Every function
  below takes them as the parameter \<open>P\<close>; every theorem holds for all of them.
\<close>

record platform =
  NumberToString :: "rat \<Rightarrow> string"
  StringToNumber :: "string \<Rightarrow> rat option"
  toISOString :: "int \<Rightarrow> string"
  DateParse :: "string \<Rightarrow> int option"
  CURRENT_TIMESTAMP :: "int \<Rightarrow> string"

datatype js_error = TypeError | RangeError

text \<open>Decimal digits of a natural number: the keys of a string's characters.\<close>

fun decimal :: "nat \<Rightarrow> string" where
  "decimal n = (if n < 10 then [''0123456789'' ! n] else decimal (n div 10) @ [''0123456789'' ! (n mod 10)])"

declare decimal.simps [simp del]

text \<open>
  The own enumerable properties that \<open>{...v}\<close> copies and \<open>v?.k\<close> reads: those of
  an object, the indexed characters of a string, none for the other values. A key that
  the list holds twice counts once, with its first value.
\<close>

definition own_props :: "json \<Rightarrow> props" where
  "own_props v = AList.clearjunk
     (case v of
        JObj kvs \<Rightarrow> kvs
      | JStr s \<Rightarrow> zip (map decimal [0..<length s]) (map (\<lambda>c. JStr [c]) s)
      | _ \<Rightarrow> [])"

definition has_own :: "json \<Rightarrow> string \<Rightarrow> bool" where
  "has_own v k = (map_of (own_props v) k \<noteq> None)"

text \<open>\<open>v.k\<close> on a value that is not nullish, and \<open>v?.k\<close> on any value.\<close>

definition js_get :: "json \<Rightarrow> string \<Rightarrow> json" where
  "js_get v k = (case map_of (own_props v) k of Some x \<Rightarrow> x | None \<Rightarrow> JUndefined)"

text \<open>\<open>{...t, ...v}\<close>, given the properties \<open>t\<close> written so far.\<close>

definition assign :: "props \<Rightarrow> json \<Rightarrow> props" where
  "assign t v = fold (\<lambda>(k, x). AList.update k x) (own_props v) t"

fun truthy :: "json \<Rightarrow> bool" where
  "truthy JUndefined = False"
| "truthy JNull = False"
| "truthy (JBool b) = b"
| "truthy (JNum q) = (q \<noteq> 0)"
| "truthy (JStr s) = (s \<noteq> [])"
| "truthy (JObj kvs) = True"

text \<open>\<open>a || b\<close>\<close>

definition js_or :: "json \<Rightarrow> json \<Rightarrow> json" where
  "js_or a b = (if truthy a then a else b)"

text \<open>\<open>ToNumber\<close>; \<open>None\<close> is NaN. A plain object converts to NaN.\<close>

fun ToNumber :: "platform \<Rightarrow> json \<Rightarrow> rat option" where
  "ToNumber P JUndefined = None"
| "ToNumber P JNull = Some 0"
| "ToNumber P (JBool b) = Some (if b then 1 else 0)"
| "ToNumber P (JNum q) = Some q"
| "ToNumber P (JStr s) = StringToNumber P s"
| "ToNumber P (JObj kvs) = None"

text \<open>\<open>v > c\<close> and \<open>v < c\<close> for a numeric constant \<open>c\<close>: false on NaN.\<close>

definition js_gt :: "platform \<Rightarrow> json \<Rightarrow> rat \<Rightarrow> bool" where
  "js_gt P v c = (case ToNumber P v of None \<Rightarrow> False | Some x \<Rightarrow> c < x)"

definition js_lt :: "platform \<Rightarrow> json \<Rightarrow> rat \<Rightarrow> bool" where
  "js_lt P v c = (case ToNumber P v of None \<Rightarrow> False | Some x \<Rightarrow> x < c)"

text \<open>\<open>`${v}`\<close>: the text of a value inside a template literal.\<close>

fun ToString :: "platform \<Rightarrow> json \<Rightarrow> string" where
  "ToString P JUndefined = ''undefined''"
| "ToString P JNull = ''null''"
| "ToString P (JBool b) = (if b then ''true'' else ''false'')"
| "ToString P (JNum q) = NumberToString P q"
| "ToString P (JStr s) = s"
| "ToString P (JObj kvs) = ''[object Object]''"

text \<open>
  \<open>new Date(v).getTime()\<close>: the instant a value denotes, \<open>None\<close> for an invalid
  date. A number is truncated and must lie within 8.64e15 ms of the epoch.
\<close>

definition TimeClip :: "rat \<Rightarrow> int option" where
  "TimeClip q = (if 8640000000000000 < \<bar>q\<bar> then None
                 else Some (if 0 \<le> q then \<lfloor>q\<rfloor> else \<lceil>q\<rceil>))"

fun DateValue :: "platform \<Rightarrow> json \<Rightarrow> int option" where
  "DateValue P JUndefined = None"
| "DateValue P JNull = Some 0"
| "DateValue P (JBool b) = Some (if b then 1 else 0)"
| "DateValue P (JNum q) = TimeClip q"
| "DateValue P (JStr s) = DateParse P s"
| "DateValue P (JObj kvs) = DateParse P ''[object Object]''"

section \<open>The operations state (server.js)\<close>

text \<open>
  \<open>opsState\<close>: the fleet (a \<open>Map\<close> from vessel id to vessel record, in insertion
  order), the alert log (newest first) and the counters of \<open>systemStatus\<close>. \<open>sent\<close>
  collects the messages handed to \<open>broadcastToClients\<close>, oldest first. One call reads
  the clock once: \<open>now\<close> is milliseconds since the epoch.
\<close>

record ops_state =
  fleet :: "(json \<times> json) list"
  alerts :: "json list"
  connectedVessels :: nat
  totalAlerts :: nat
  criticalAlerts :: nat
  sent :: "json list"

definition Map_get :: "(json \<times> json) list \<Rightarrow> json \<Rightarrow> json" where
  "Map_get m k = (case map_of m k of Some v \<Rightarrow> v | None \<Rightarrow> JUndefined)"

text \<open>
  The lookup compares keys by value. That is what the \<open>Map\<close> does for \<open>undefined\<close>,
  \<open>null\<close>, booleans, numbers and strings. Two objects are the same key of the \<open>Map\<close>
  only when they are one object, and no two parsed payloads share an object: for a
  vessel id that is an object the \<open>Map\<close> finds no record where this lookup finds one.
\<close>

fun isObject :: "json \<Rightarrow> bool" where
  "isObject (JObj kvs) = True"
| "isObject v = False"

definition Map_size :: "(json \<times> json) list \<Rightarrow> nat" where
  "Map_size m = length (remdups (map fst m))"

definition broadcastToClients :: "json \<Rightarrow> ops_state \<Rightarrow> ops_state" where
  "broadcastToClients message st = st\<lparr>sent := sent st @ [message]\<rparr>"

definition determineVesselStatus :: "platform \<Rightarrow> json \<Rightarrow> string" where
  "determineVesselStatus P vesselData =
     (if truthy (js_get (js_get vesselData ''safety'') ''fireAlarm'') then ''emergency''
      else if js_gt P (js_get (js_get vesselData ''engine'') ''temperature'') 100 then ''warning''
      else if js_lt P (js_get (js_get vesselData ''power'') ''batterySOC'') 20 then ''caution''
      else if js_gt P (js_get (js_get vesselData ''safety'') ''bilgeLevel'') 50 then ''caution''
      else ''normal'')"

text \<open>
  \<open>minutesSinceUpdate < 5\<close> for \<open>(now - lastUpdate) / 60000\<close>: on whole
  milliseconds that is \<open>now - lastUpdate < 300000\<close>; false for an invalid date.
\<close>

definition getOperationalState :: "platform \<Rightarrow> int \<Rightarrow> json \<Rightarrow> json" where
  "getOperationalState P now vesselData =
     (if truthy (js_get vesselData ''operational'') then js_get vesselData ''operational''
      else if js_gt P (js_get (js_get vesselData ''engine'') ''rpm'') 0 then JStr ''underway''
      else if truthy (js_get vesselData ''location'') then JStr ''docked''
      else if truthy (js_get vesselData ''lastTelemetry'') \<and>
              (case DateValue P (js_get vesselData ''lastTelemetry'') of
                 None \<Rightarrow> False
               | Some lastUpdate \<Rightarrow> now - lastUpdate < 300000)
           then JStr ''docked''
      else JStr ''offline'')"

definition updateAlertCounts :: "ops_state \<Rightarrow> ops_state" where
  "updateAlertCounts st =
     st\<lparr>totalAlerts := length (alerts st),
        criticalAlerts := length (filter (\<lambda>a. js_get a ''severity'' = JStr ''critical'') (alerts st))\<rparr>"

text \<open>The alert object literal of \<open>checkForAlerts\<close>; \<open>kind\<close> is the middle of its id.\<close>

definition mkAlert :: "platform \<Rightarrow> int \<Rightarrow> json \<Rightarrow> string \<Rightarrow> string \<Rightarrow> string \<Rightarrow> string \<Rightarrow> json" where
  "mkAlert P now vesselId kind ty severity message =
     JObj [(''id'', JStr (ToString P vesselId @ ''-'' @ kind @ ''-'' @ NumberToString P (of_int now))),
           (''vesselId'', vesselId),
           (''type'', JStr ty),
           (''severity'', JStr severity),
           (''message'', JStr message),
           (''timestamp'', JStr (toISOString P now))]"

text \<open>The degree sign and the fire emoji of the messages, as UTF-8 bytes.\<close>

definition degree :: string where
  "degree = [CHR 0xC2, CHR 0xB0]"

definition fire :: string where
  "fire = [CHR 0xF0, CHR 0x9F, CHR 0x94, CHR 0xA5]"

text \<open>The local array \<open>alerts\<close> that \<open>checkForAlerts\<close> fills: five tests in a row.\<close>

definition newAlerts :: "platform \<Rightarrow> int \<Rightarrow> json \<Rightarrow> json list" where
  "newAlerts P now vesselData =
     (let vesselId = js_get vesselData ''vesselId'';
          temperature = js_get (js_get vesselData ''engine'') ''temperature'';
          rpm = js_get (js_get vesselData ''engine'') ''rpm'';
          batterySOC = js_get (js_get vesselData ''power'') ''batterySOC'';
          bilgeLevel = js_get (js_get vesselData ''safety'') ''bilgeLevel'';
          fireAlarm = js_get (js_get vesselData ''safety'') ''fireAlarm''
      in (if js_gt P temperature 95
          then [mkAlert P now vesselId ''engine-temp'' ''engine''
                  (if js_gt P temperature 105 then ''critical'' else ''warning'')
                  (''Engine temperature high: '' @ ToString P temperature @ degree @ ''C'')]
          else [])
       @ (if js_gt P rpm 1800
          then [mkAlert P now vesselId ''engine-rpm'' ''engine'' ''warning''
                  (''Engine RPM high: '' @ ToString P rpm)]
          else [])
       @ (if js_lt P batterySOC 25
          then [mkAlert P now vesselId ''battery-low'' ''power''
                  (if js_lt P batterySOC 15 then ''critical'' else ''warning'')
                  (''Battery SOC low: '' @ ToString P batterySOC @ ''%'')]
          else [])
       @ (if js_gt P bilgeLevel 40
          then [mkAlert P now vesselId ''bilge-high'' ''safety''
                  (if js_gt P bilgeLevel 60 then ''critical'' else ''warning'')
                  (''Bilge level high: '' @ ToString P bilgeLevel @ ''cm'')]
          else [])
       @ (if fireAlarm = JBool True
          then [mkAlert P now vesselId ''fire-alarm'' ''emergency'' ''critical''
                  (fire @ '' FIRE ALARM ACTIVATED on '' @ ToString P vesselId)]
          else []))"

text \<open>
  \<open>checkForAlerts\<close>: each new alert goes to the head of the log and to the clients,
  then the log is cut to its first 100 entries and the counters are updated. (The
  copy that \<open>dataCollector.trackAlert\<close> writes to the event table is not part of the
  operations state.)
\<close>

definition addAlert :: "json \<Rightarrow> ops_state \<Rightarrow> ops_state" where
  "addAlert alert st =
     broadcastToClients (JObj [(''type'', JStr ''new_alert''), (''data'', alert)])
       (st\<lparr>alerts := alert # alerts st\<rparr>)"

definition checkForAlerts :: "platform \<Rightarrow> int \<Rightarrow> json \<Rightarrow> ops_state \<Rightarrow> ops_state" where
  "checkForAlerts P now vesselData st =
     (let st1 = fold addAlert (newAlerts P now vesselData) st;
          st2 = (if 100 < length (alerts st1) then st1\<lparr>alerts := take 100 (alerts st1)\<rparr> else st1)
      in updateAlertCounts st2)"

text \<open>\<open>handleEmergencyAlert\<close>; reading a property of a nullish \<open>alertData\<close> throws.\<close>

definition handleEmergencyAlert :: "platform \<Rightarrow> int \<Rightarrow> json \<Rightarrow> ops_state \<Rightarrow> js_error + ops_state" where
  "handleEmergencyAlert P now alertData st =
     (if alertData = JUndefined \<or> alertData = JNull then Inl TypeError
      else
        let alert = JObj [(''id'', JStr (''emergency-'' @ NumberToString P (of_int now))),
                          (''vesselId'', js_get alertData ''vesselId''),
                          (''type'', JStr ''emergency''),
                          (''severity'', JStr ''critical''),
                          (''message'', js_or (js_get alertData ''message'') (JStr ''Emergency situation detected'')),
                          (''timestamp'', js_or (js_get alertData ''timestamp'') (JStr (toISOString P now))),
                          (''location'', js_get alertData ''location''),
                          (''emergencyType'', js_get alertData ''type'')];
            st1 = updateAlertCounts (st\<lparr>alerts := alert # alerts st\<rparr>)
        in Inr (broadcastToClients (JObj [(''type'', JStr ''emergency_alert''), (''data'', alert)]) st1))"

text \<open>
  The record \<open>updateVesselData\<close> builds from the stored record and the fragment: the
  two spreads with \<open>lastSeen\<close> and \<open>status\<close>, then \<open>operationalState\<close>, then the six
  groups, each merged when either side has it.
\<close>

definition mergeGroup :: "json \<Rightarrow> json \<Rightarrow> string \<Rightarrow> props \<Rightarrow> props" where
  "mergeGroup existingVessel vesselData g mergedVessel =
     (if truthy (js_get vesselData g) \<or> truthy (js_get existingVessel g)
      then AList.update g (JObj (assign (assign [] (js_get existingVessel g)) (js_get vesselData g))) mergedVessel
      else mergedVessel)"

definition shallowMerge :: "platform \<Rightarrow> int \<Rightarrow> json \<Rightarrow> json \<Rightarrow> props" where
  "shallowMerge P now existingVessel vesselData =
     AList.update ''status'' (JStr (determineVesselStatus P vesselData))
       (AList.update ''lastSeen'' (JStr (toISOString P now))
          (assign (assign [] existingVessel) vesselData))"

definition groups :: "string list" where
  "groups = [''engine'', ''power'', ''navigation'', ''location'', ''safety'', ''systems'']"

definition mergeVessel :: "platform \<Rightarrow> int \<Rightarrow> json \<Rightarrow> json \<Rightarrow> json" where
  "mergeVessel P now existingVessel vesselData =
     (let m0 = shallowMerge P now existingVessel vesselData;
          m1 = AList.update ''operationalState'' (getOperationalState P now (JObj m0)) m0
      in JObj (fold (mergeGroup existingVessel vesselData) groups m1))"

text \<open>\<open>updateVesselData\<close>; reading \<open>vesselId\<close> of a nullish fragment throws.\<close>

definition updateVesselData :: "platform \<Rightarrow> int \<Rightarrow> json \<Rightarrow> ops_state \<Rightarrow> js_error + ops_state" where
  "updateVesselData P now vesselData st =
     (if vesselData = JUndefined \<or> vesselData = JNull then Inl TypeError
      else
        let vesselId = js_get vesselData ''vesselId'';
            existingVessel = js_or (Map_get (fleet st) vesselId) (JObj []);
            mergedVessel = mergeVessel P now existingVessel vesselData;
            st1 = st\<lparr>fleet := AList.update vesselId mergedVessel (fleet st)\<rparr>;
            st2 = st1\<lparr>connectedVessels := Map_size (fleet st1)\<rparr>;
            st3 = checkForAlerts P now vesselData st2
        in Inr (broadcastToClients
                  (JObj [(''type'', JStr ''vessel_update''),
                         (''data'', JObj [(''vesselId'', vesselId),
                                          (''vessel'', Map_get (fleet st3) vesselId)])])
                  st3))"

text \<open>
  \<open>acknowledgeAlert\<close>: the first alert with the id is marked and the clients are
  told; without one nothing happens.
\<close>

definition set_prop :: "string \<Rightarrow> json \<Rightarrow> json \<Rightarrow> json" where
  "set_prop k x v = (case v of JObj kvs \<Rightarrow> JObj (AList.update k x kvs) | _ \<Rightarrow> v)"

fun findIndex :: "('a \<Rightarrow> bool) \<Rightarrow> 'a list \<Rightarrow> nat option" where
  "findIndex p [] = None"
| "findIndex p (x # xs) = (if p x then Some 0 else map_option Suc (findIndex p xs))"

definition acknowledgeAlert :: "platform \<Rightarrow> int \<Rightarrow> json \<Rightarrow> ops_state \<Rightarrow> ops_state" where
  "acknowledgeAlert P now alertId st =
     (case findIndex (\<lambda>a. js_get a ''id'' = alertId) (alerts st) of
        None \<Rightarrow> st
      | Some alertIndex \<Rightarrow>
          let acknowledgedAt = JStr (toISOString P now);
              alert = set_prop ''acknowledgedAt'' acknowledgedAt
                        (set_prop ''acknowledged'' (JBool True) (alerts st ! alertIndex))
          in broadcastToClients
               (JObj [(''type'', JStr ''alert_acknowledged''),
                      (''data'', JObj [(''alertId'', alertId), (''acknowledgedAt'', acknowledgedAt)])])
               (st\<lparr>alerts := (alerts st)[alertIndex := alert]\<rparr>))"

section \<open>The historical store (db/database.js, db/historical-data.js)\<close>

text \<open>
  The tables \<open>telemetry\<close> and \<open>telemetry_aggregates\<close> as lists of rows in insertion
  order, each with the counter of its \<open>AUTOINCREMENT\<close> key. A numeric cell is a number
  or \<open>NULL\<close> (\<open>None\<close>). A timestamp is the instant (milliseconds since the epoch) that
  the stored ISO-8601 text denotes: such texts compare as their instants do.
  \<open>created_at\<close> is the instant of the insertion. Neither table has a uniqueness
  constraint besides its key. Statements run in the order the code issues them.
\<close>

record telemetry_row =
  row_id :: nat
  vessel_id :: string
  timestamp :: int
  engine_rpm :: "rat option"
  engine_temp :: "rat option"
  fuel_flow :: "rat option"
  battery_soc :: "rat option"
  voltage :: "rat option"
  generator_load :: "rat option"
  speed :: "rat option"
  heading :: "rat option"
  latitude :: "rat option"
  longitude :: "rat option"
  bilge_level :: "rat option"
  co2_level :: "rat option"
  operational_state :: "string option"
  created_at :: int

record aggregate_row =
  agg_id :: nat
  agg_vessel_id :: string
  agg_timestamp :: int
  interval_type :: string
  metric_name :: string
  min_value :: "rat option"
  max_value :: "rat option"
  avg_value :: "rat option"
  count :: nat
  agg_created_at :: int

record database =
  telemetry :: "telemetry_row list"
  telemetry_seq :: nat
  telemetry_aggregates :: "aggregate_row list"
  aggregates_seq :: nat

definition metrics :: "string list" where
  "metrics = [''engine_rpm'', ''engine_temp'', ''fuel_flow'',
              ''battery_soc'', ''voltage'', ''generator_load'',
              ''speed'', ''bilge_level'', ''co2_level'']"

text \<open>
  The numeric columns that \<open>${metric}\<close> can name in a statement. Any other text
  spliced in is taken to make the statement fail, so that the callback gets \<open>err\<close>.
\<close>

definition column :: "string \<Rightarrow> (telemetry_row \<Rightarrow> rat option) option" where
  "column name = map_of
     [(''engine_rpm'', engine_rpm), (''engine_temp'', engine_temp), (''fuel_flow'', fuel_flow),
      (''battery_soc'', battery_soc), (''voltage'', voltage), (''generator_load'', generator_load),
      (''speed'', speed), (''heading'', heading), (''latitude'', latitude),
      (''longitude'', longitude), (''bilge_level'', bilge_level), (''co2_level'', co2_level)] name"

text \<open>
  How the driver binds a parameter: \<open>null\<close> and \<open>undefined\<close> as \<open>NULL\<close>, a number
  as itself, a boolean as 0 or 1, a string as text. The outer \<open>None\<close> marks a value whose
  stored form SQLite decides by rules that are not modelled (text or an object for a
  numeric column, a number or an object for a text column).
\<close>

fun bindReal :: "json \<Rightarrow> rat option option" where
  "bindReal JUndefined = Some None"
| "bindReal JNull = Some None"
| "bindReal (JBool b) = Some (Some (if b then 1 else 0))"
| "bindReal (JNum q) = Some (Some q)"
| "bindReal (JStr s) = None"
| "bindReal (JObj kvs) = None"

fun bindText :: "json \<Rightarrow> string option option" where
  "bindText JUndefined = Some None"
| "bindText JNull = Some None"
| "bindText (JStr s) = Some (Some s)"
| "bindText (JBool b) = None"
| "bindText (JNum q) = None"
| "bindText (JObj kvs) = None"

text \<open>
  The array \<open>params\<close> of \<open>saveTelemetry\<close>, each value beside the column it is
  inserted into (the timestamp, which is the clock, apart).
\<close>

definition telemetryParams :: "json \<Rightarrow> (string \<times> json) list" where
  "telemetryParams vesselData =
     (let engine = js_get vesselData ''engine'';
          power = js_get vesselData ''power'';
          navigation = js_get vesselData ''navigation'';
          location = js_get vesselData ''location'';
          safety = js_get vesselData ''safety''
      in [(''vessel_id'', js_or (js_get vesselData ''vesselId'') (js_get vesselData ''id'')),
          (''engine_rpm'', js_or (js_get engine ''rpm'') JNull),
          (''engine_temp'', js_or (js_get engine ''temperature'') JNull),
          (''fuel_flow'', js_or (js_get engine ''fuelFlow'') JNull),
          (''battery_soc'', js_or (js_get power ''batterySOC'') JNull),
          (''voltage'', js_or (js_get power ''voltage'') JNull),
          (''generator_load'', js_or (js_get power ''generatorLoad'') JNull),
          (''speed'', js_or (js_or (js_get navigation ''speed'') (js_get location ''speed'')) JNull),
          (''heading'', js_or (js_or (js_get navigation ''heading'') (js_get location ''heading'')) JNull),
          (''latitude'', js_or (js_or (js_get navigation ''latitude'') (js_get location ''latitude'')) JNull),
          (''longitude'', js_or (js_or (js_get navigation ''longitude'') (js_get location ''longitude'')) JNull),
          (''bilge_level'', js_or (js_get safety ''bilgeLevel'') JNull),
          (''co2_level'', js_or (js_get safety ''co2Level'') JNull),
          (''operational_state'',
             js_or (js_or (js_get vesselData ''operationalState'') (js_get vesselData ''operational'')) JNull)])"

definition param :: "(string \<times> json) list \<Rightarrow> string \<Rightarrow> json" where
  "param ps c = (case map_of ps c of Some v \<Rightarrow> v | None \<Rightarrow> JUndefined)"

definition numericColumns :: "string list" where
  "numericColumns = [''engine_rpm'', ''engine_temp'', ''fuel_flow'', ''battery_soc'', ''voltage'',
                     ''generator_load'', ''speed'', ''heading'', ''latitude'', ''longitude'',
                     ''bilge_level'', ''co2_level'']"

definition real_cell :: "(string \<times> json) list \<Rightarrow> string \<Rightarrow> rat option" where
  "real_cell ps c = (case bindReal (param ps c) of Some x \<Rightarrow> x | None \<Rightarrow> None)"

definition text_cell :: "(string \<times> json) list \<Rightarrow> string \<Rightarrow> string option" where
  "text_cell ps c = (case bindText (param ps c) of Some x \<Rightarrow> x | None \<Rightarrow> None)"

text \<open>Every parameter has a stored form that is modelled.\<close>

definition bindable :: "(string \<times> json) list \<Rightarrow> bool" where
  "bindable ps =
     (bindText (param ps ''vessel_id'') \<noteq> None \<and>
      list_all (\<lambda>c. bindReal (param ps c) \<noteq> None) numericColumns \<and>
      bindText (param ps ''operational_state'') \<noteq> None)"

text \<open>The row that the \<open>INSERT\<close> adds, with its key and the vessel id as bound.\<close>

definition insertedRow :: "nat \<Rightarrow> int \<Rightarrow> string \<Rightarrow> (string \<times> json) list \<Rightarrow> telemetry_row" where
  "insertedRow n now vid ps =
     \<lparr>row_id = n,
      vessel_id = vid,
      timestamp = now,
      engine_rpm = real_cell ps ''engine_rpm'',
      engine_temp = real_cell ps ''engine_temp'',
      fuel_flow = real_cell ps ''fuel_flow'',
      battery_soc = real_cell ps ''battery_soc'',
      voltage = real_cell ps ''voltage'',
      generator_load = real_cell ps ''generator_load'',
      speed = real_cell ps ''speed'',
      heading = real_cell ps ''heading'',
      latitude = real_cell ps ''latitude'',
      longitude = real_cell ps ''longitude'',
      bilge_level = real_cell ps ''bilge_level'',
      co2_level = real_cell ps ''co2_level'',
      operational_state = text_cell ps ''operational_state'',
      created_at = now\<rparr>"

text \<open>
  \<open>saveTelemetry\<close>. \<open>None\<close>: a parameter is outside the model. A \<open>NULL\<close> vessel id
  violates \<open>NOT NULL\<close>: the error is logged and the table is unchanged.
\<close>

definition saveTelemetry :: "int \<Rightarrow> json \<Rightarrow> database \<Rightarrow> database option" where
  "saveTelemetry now vesselData db =
     (let ps = telemetryParams vesselData in
      if bindable ps then
        (case text_cell ps ''vessel_id'' of
           None \<Rightarrow> Some db
         | Some vid \<Rightarrow>
             Some (db\<lparr>telemetry := telemetry db @ [insertedRow (Suc (telemetry_seq db)) now vid ps],
                      telemetry_seq := Suc (telemetry_seq db)\<rparr>))
      else None)"

text \<open>The aggregate functions over the values that are not \<open>NULL\<close>.\<close>

definition sql_min :: "rat list \<Rightarrow> rat option" where
  "sql_min xs = (case xs of [] \<Rightarrow> None | x # ys \<Rightarrow> Some (fold min ys x))"

definition sql_max :: "rat list \<Rightarrow> rat option" where
  "sql_max xs = (case xs of [] \<Rightarrow> None | x # ys \<Rightarrow> Some (fold max ys x))"

definition sql_avg :: "rat list \<Rightarrow> rat option" where
  "sql_avg xs = (if xs = [] then None else Some (sum_list xs / of_nat (length xs)))"

definition nonNull :: "(telemetry_row \<Rightarrow> rat option) \<Rightarrow> telemetry_row list \<Rightarrow> rat list" where
  "nonNull col rows = List.map_filter col rows"

definition hoursAgo :: "(string \<times> int) list \<Rightarrow> string \<Rightarrow> int" where
  "hoursAgo table timeRange = (case map_of table timeRange of Some h \<Rightarrow> h | None \<Rightarrow> 24)"

text \<open>
  \<open>getHistoricalData\<close>: the rows \<open>{timestamp, value}\<close>, oldest first; the empty list when
  the statement fails.
\<close>

definition getHistoricalData :: "string \<Rightarrow> string \<Rightarrow> string \<Rightarrow> int \<Rightarrow> database \<Rightarrow> (int \<times> rat option) list" where
  "getHistoricalData vesselId metric timeRange now db =
     (let since = now - hoursAgo [(''1h'', 1), (''6h'', 6), (''12h'', 12), (''24h'', 24)] timeRange * 60 * 60 * 1000
      in if timeRange = ''1h'' \<or> timeRange = ''6h''
         then (case column metric of
                 None \<Rightarrow> []
               | Some col \<Rightarrow>
                   map (\<lambda>r. (timestamp r, col r))
                     (sort_key timestamp
                        (filter (\<lambda>r. vessel_id r = vesselId \<and> since < timestamp r \<and> col r \<noteq> None)
                           (telemetry db))))
         else map (\<lambda>a. (agg_timestamp a, avg_value a))
                (sort_key agg_timestamp
                   (filter (\<lambda>a. agg_vessel_id a = vesselId \<and> metric_name a = metric \<and>
                                 interval_type a = ''5min'' \<and> since < agg_timestamp a)
                      (telemetry_aggregates db))))"

text \<open>
  \<open>aggregateData\<close>. An interval type that \<open>aggregationIntervals\<close> does not hold makes
  the window start an invalid date, and \<open>toISOString\<close> throws.
\<close>

definition intervalMs :: "string \<Rightarrow> int option" where
  "intervalMs intervalType = map_of [(''5min'', 5 * 60 * 1000), (''hour'', 60 * 60 * 1000)] intervalType"

definition startTime :: "int \<Rightarrow> int \<Rightarrow> int" where
  "startTime ms now = (now div ms) * ms - ms"

definition inWindow :: "int \<Rightarrow> int \<Rightarrow> telemetry_row \<Rightarrow> bool" where
  "inWindow ms now r = (startTime ms now \<le> timestamp r \<and> timestamp r < startTime ms now + ms)"

text \<open>\<open>SELECT DISTINCT vessel_id\<close> over the window, in the order of first appearance.\<close>

definition windowVessels :: "int \<Rightarrow> int \<Rightarrow> telemetry_row list \<Rightarrow> string list" where
  "windowVessels ms now rows = rev (remdups (rev (map vessel_id (filter (inWindow ms now) rows))))"

text \<open>
  The parameters of the \<open>INSERT\<close> for one vessel and one metric, if \<open>stats.count > 0\<close>:
  vessel, window start, interval type, metric, minimum, maximum, average, count.
\<close>

type_synonym bucket = "string \<times> int \<times> string \<times> string \<times> rat option \<times> rat option \<times> rat option \<times> nat"

definition metricBucket :: "string \<Rightarrow> int \<Rightarrow> int \<Rightarrow> telemetry_row list \<Rightarrow> string \<Rightarrow> string \<Rightarrow> bucket list" where
  "metricBucket intervalType ms now rows v metric =
     (case column metric of
        None \<Rightarrow> []
      | Some col \<Rightarrow>
          let xs = nonNull col (filter (\<lambda>r. vessel_id r = v \<and> inWindow ms now r) rows)
          in if 0 < length xs
             then [(v, startTime ms now, intervalType, metric, sql_min xs, sql_max xs, sql_avg xs, length xs)]
             else [])"

definition newBuckets :: "string \<Rightarrow> int \<Rightarrow> int \<Rightarrow> telemetry_row list \<Rightarrow> bucket list" where
  "newBuckets intervalType ms now rows =
     concat (map (\<lambda>v. concat (map (metricBucket intervalType ms now rows v) metrics))
               (windowVessels ms now rows))"

definition insertAggregate :: "int \<Rightarrow> bucket \<Rightarrow> database \<Rightarrow> database" where
  "insertAggregate now b db =
     (case b of (v, start, intervalType, metric, mn, mx, av, n) \<Rightarrow>
        db\<lparr>telemetry_aggregates := telemetry_aggregates db @
              [\<lparr>agg_id = Suc (aggregates_seq db),
                agg_vessel_id = v,
                agg_timestamp = start,
                interval_type = intervalType,
                metric_name = metric,
                min_value = mn,
                max_value = mx,
                avg_value = av,
                count = n,
                agg_created_at = now\<rparr>],
           aggregates_seq := Suc (aggregates_seq db)\<rparr>)"

definition aggregateData :: "string \<Rightarrow> int \<Rightarrow> database \<Rightarrow> js_error + database" where
  "aggregateData intervalType now db =
     (case intervalMs intervalType of
        None \<Rightarrow> Inl RangeError
      | Some ms \<Rightarrow> Inr (fold (insertAggregate now) (newBuckets intervalType ms now (telemetry db)) db))"

text \<open>The parameters an aggregate row was inserted with.\<close>

definition bucket_of :: "aggregate_row \<Rightarrow> bucket" where
  "bucket_of a = (agg_vessel_id a, agg_timestamp a, interval_type a, metric_name a,
                  min_value a, max_value a, avg_value a, count a)"

text \<open>\<open>exportToCSV\<close>: nothing for no rows, else the header and one line per row.\<close>

fun join :: "string \<Rightarrow> string list \<Rightarrow> string" where
  "join sep [] = []"
| "join sep [x] = x"
| "join sep (x # y # ys) = x @ sep @ join sep (y # ys)"

definition telemetryColumns :: "string list" where
  "telemetryColumns = [''id'', ''vessel_id'', ''timestamp'', ''engine_rpm'', ''engine_temp'',
                       ''fuel_flow'', ''battery_soc'', ''voltage'', ''generator_load'', ''speed'',
                       ''heading'', ''latitude'', ''longitude'', ''bilge_level'', ''co2_level'',
                       ''operational_state'', ''created_at'']"

definition csvNumber :: "platform \<Rightarrow> rat option \<Rightarrow> string" where
  "csvNumber P c = (case c of None \<Rightarrow> [] | Some q \<Rightarrow> NumberToString P q)"

definition csvValues :: "platform \<Rightarrow> telemetry_row \<Rightarrow> string list" where
  "csvValues P r =
     [NumberToString P (of_nat (row_id r)), vessel_id r, toISOString P (timestamp r),
      csvNumber P (engine_rpm r), csvNumber P (engine_temp r), csvNumber P (fuel_flow r),
      csvNumber P (battery_soc r), csvNumber P (voltage r), csvNumber P (generator_load r),
      csvNumber P (speed r), csvNumber P (heading r), csvNumber P (latitude r),
      csvNumber P (longitude r), csvNumber P (bilge_level r), csvNumber P (co2_level r),
      (case operational_state r of None \<Rightarrow> [] | Some s \<Rightarrow> s),
      CURRENT_TIMESTAMP P (created_at r)]"

definition exportRows :: "(string \<times> int) list \<Rightarrow> string \<Rightarrow> string \<Rightarrow> int \<Rightarrow> database \<Rightarrow> telemetry_row list" where
  "exportRows table vesselId timeRange now db =
     sort_key (\<lambda>r. - timestamp r)
       (filter (\<lambda>r. vessel_id r = vesselId \<and> now - hoursAgo table timeRange * 60 * 60 * 1000 < timestamp r)
          (telemetry db))"

definition exportToCSV :: "platform \<Rightarrow> string \<Rightarrow> string \<Rightarrow> int \<Rightarrow> database \<Rightarrow> string" where
  "exportToCSV P vesselId timeRange now db =
     (let rows = exportRows [(''1h'', 1), (''12h'', 12), (''24h'', 24)] vesselId timeRange now db
      in if rows = [] then []
         else join '','' telemetryColumns @ [CHR 0x0A] @
              join [CHR 0x0A] (map (\<lambda>row. join '','' (csvValues P row)) rows))"

text \<open>
  \<open>getStatistics\<close>: an aggregate query without \<open>GROUP BY\<close> yields one row whatever
  matches, so \<open>stats || {...}\<close> is that row; the zeroed record is the answer to \<open>err\<close>.
\<close>

definition sqlNumber :: "rat option \<Rightarrow> json" where
  "sqlNumber c = (case c of None \<Rightarrow> JNull | Some q \<Rightarrow> JNum q)"

definition getStatistics :: "string \<Rightarrow> string \<Rightarrow> string \<Rightarrow> int \<Rightarrow> database \<Rightarrow> json" where
  "getStatistics vesselId metric timeRange now db =
     (let since = now - (if timeRange = ''24h'' then 24 else 1) * 60 * 60 * 1000
      in case column metric of
           None \<Rightarrow> JObj [(''min'', JNum 0), (''max'', JNum 0), (''avg'', JNum 0), (''count'', JNum 0)]
         | Some col \<Rightarrow>
             let xs = nonNull col (filter (\<lambda>r. vessel_id r = vesselId \<and> since < timestamp r) (telemetry db));
                 stats = JObj [(''min'', sqlNumber (sql_min xs)), (''max'', sqlNumber (sql_max xs)),
                               (''avg'', sqlNumber (sql_avg xs)), (''count'', JNum (of_nat (length xs)))]
             in js_or stats (JObj [(''min'', JNum 0), (''max'', JNum 0), (''avg'', JNum 0), (''count'', JNum 0)]))"

section \<open>A platform for the examples\<close>

text \<open>
  The examples below run on this platform. It implements the conversions on the values
  they use: whole numbers print in decimal and a string of decimal digits reads back as
  a number; an instant prints as \<open>YYYY-MM-DDTHH:mm:ss.sssZ\<close> (years 0000 to 9999) and
  such a text reads back as its instant; \<open>CURRENT_TIMESTAMP\<close> is
  \<open>YYYY-MM-DD HH:MM:SS\<close>. JavaScript reads more texts as numbers and dates than these.
\<close>

definition integerText :: "rat \<Rightarrow> string" where
  "integerText q = (if q < 0 then ''-'' else []) @ decimal (nat \<lfloor>\<bar>q\<bar>\<rfloor>)"

definition readDigits :: "string \<Rightarrow> nat option" where
  "readDigits s =
     (if s \<noteq> [] \<and> list_all (\<lambda>c. c \<in> set ''0123456789'') s
      then Some (foldl (\<lambda>a c. 10 * a + (of_char c - 48)) 0 s)
      else None)"

definition pad :: "nat \<Rightarrow> int \<Rightarrow> string" where
  "pad w n = replicate (w - length (decimal (nat n))) (CHR ''0'') @ decimal (nat n)"

definition civil_from_days :: "int \<Rightarrow> int \<times> int \<times> int" where
  "civil_from_days days =
     (let z = days + 719468;
          era = z div 146097;
          doe = z - era * 146097;
          yoe = (doe - doe div 1460 + doe div 36524 - doe div 146096) div 365;
          doy = doe - (365 * yoe + yoe div 4 - yoe div 100);
          mp = (5 * doy + 2) div 153;
          d = doy - (153 * mp + 2) div 5 + 1;
          m = (if mp < 10 then mp + 3 else mp - 9);
          y = yoe + era * 400 + (if m \<le> 2 then 1 else 0)
      in (y, m, d))"

definition days_from_civil :: "int \<Rightarrow> int \<Rightarrow> int \<Rightarrow> int" where
  "days_from_civil y m d =
     (let y1 = (if m \<le> 2 then y - 1 else y);
          era = y1 div 400;
          yoe = y1 - era * 400;
          doy = (153 * (if 2 < m then m - 3 else m + 9) + 2) div 5 + d - 1;
          doe = yoe * 365 + yoe div 4 - yoe div 100 + doy
      in era * 146097 + doe - 719468)"

definition isoText :: "int \<Rightarrow> string" where
  "isoText t =
     (let (y, m, d) = civil_from_days (t div 86400000); r = t mod 86400000
      in pad 4 y @ ''-'' @ pad 2 m @ ''-'' @ pad 2 d @ ''T'' @ pad 2 (r div 3600000) @ '':'' @
         pad 2 (r mod 3600000 div 60000) @ '':'' @ pad 2 (r mod 60000 div 1000) @ ''.'' @
         pad 3 (r mod 1000) @ ''Z'')"

definition sqlText :: "int \<Rightarrow> string" where
  "sqlText t =
     (let (y, m, d) = civil_from_days (t div 86400000); r = t mod 86400000
      in pad 4 y @ ''-'' @ pad 2 m @ ''-'' @ pad 2 d @ '' '' @ pad 2 (r div 3600000) @ '':'' @
         pad 2 (r mod 3600000 div 60000) @ '':'' @ pad 2 (r mod 60000 div 1000))"

definition field :: "nat \<Rightarrow> nat \<Rightarrow> string \<Rightarrow> int" where
  "field i n s = (case readDigits (take n (drop i s)) of Some v \<Rightarrow> int v | None \<Rightarrow> 0)"

definition readIso :: "string \<Rightarrow> int option" where
  "readIso s =
     (let t = days_from_civil (field 0 4 s) (field 5 2 s) (field 8 2 s) * 86400000
              + field 11 2 s * 3600000 + field 14 2 s * 60000 + field 17 2 s * 1000 + field 20 3 s
      in if isoText t = s then Some t else None)"

definition examplePlatform :: platform where
  "examplePlatform =
     \<lparr>NumberToString = integerText,
      StringToNumber = (\<lambda>s. map_option of_nat (readDigits s)),
      toISOString = isoText,
      DateParse = readIso,
      CURRENT_TIMESTAMP = sqlText\<rparr>"

section \<open>Arrival of fragments\<close>

text \<open>
  Both transports hand a fragment to \<open>updateVesselData\<close> inside the \<open>try\<close> of their
  message handler: a throw is logged and the state stays as it was. \<open>applyAll\<close> takes
  the fragments in arrival order, each with the clock at its arrival.
\<close>

definition onFragment :: "platform \<Rightarrow> int \<times> json \<Rightarrow> ops_state \<Rightarrow> ops_state" where
  "onFragment P m st = (case updateVesselData P (fst m) (snd m) st of Inl e \<Rightarrow> st | Inr st' \<Rightarrow> st')"

definition applyAll :: "platform \<Rightarrow> (int \<times> json) list \<Rightarrow> ops_state \<Rightarrow> ops_state" where
  "applyAll P ms st = fold (onFragment P) ms st"

definition fragmentsFor :: "json \<Rightarrow> (int \<times> json) list \<Rightarrow> json list" where
  "fragmentsFor vesselId ms = filter (\<lambda>f. js_get f ''vesselId'' = vesselId) (map snd ms)"

section \<open>Example inputs\<close>

definition emptyState :: ops_state where
  "emptyState = \<lparr>fleet = [], alerts = [], connectedVessels = 0, totalAlerts = 0,
                  criticalAlerts = 0, sent = []\<rparr>"

definition emptyDatabase :: database where
  "emptyDatabase = \<lparr>telemetry = [], telemetry_seq = 0, telemetry_aggregates = [], aggregates_seq = 0\<rparr>"

text \<open>Noon (UTC) of 25 January 2025, in milliseconds.\<close>

definition noon :: int where
  "noon = 1737806400000"

definition fireFragment :: json where
  "fireFragment = JObj [(''vesselId'', JStr ''v1''), (''safety'', JObj [(''fireAlarm'', JBool True)])]"

definition rpmFragment :: json where
  "rpmFragment = JObj [(''vesselId'', JStr ''v1''), (''engine'', JObj [(''rpm'', JNum 1200)])]"

text \<open>A numeric field of a fragment (absent or a number) and a flag (absent or a boolean).\<close>

definition reading :: "rat option \<Rightarrow> json" where
  "reading r = (case r of None \<Rightarrow> JUndefined | Some q \<Rightarrow> JNum q)"

definition flag :: "bool option \<Rightarrow> json" where
  "flag r = (case r of None \<Rightarrow> JUndefined | Some b \<Rightarrow> JBool b)"

definition hotFragment :: json where
  "hotFragment = JObj [(''vesselId'', JStr ''v1''), (''engine'', JObj [(''temperature'', JNum 106)])]"

definition lowBattery :: "rat \<Rightarrow> json" where
  "lowBattery soc = JObj [(''vesselId'', JStr ''v1''), (''power'', JObj [(''batterySOC'', JNum soc)])]"

definition fastFragment :: json where
  "fastFragment = JObj [(''vesselId'', JStr ''v1''), (''engine'', JObj [(''rpm'', JNum 1900)])]"

text \<open>
  The two alerts that one update with 106 degrees and 1900 rpm emits at noon, and a log
  at its cap: 99 copies of the warning above the critical alert of the same instant.
\<close>

definition rpmWarning :: json where
  "rpmWarning = mkAlert examplePlatform noon (JStr ''v1'') ''engine-rpm'' ''engine'' ''warning''
                  (''Engine RPM high: '' @ NumberToString examplePlatform 1900)"

definition tempCritical :: json where
  "tempCritical = mkAlert examplePlatform noon (JStr ''v1'') ''engine-temp'' ''engine'' ''critical''
                    (''Engine temperature high: '' @ NumberToString examplePlatform 106 @ degree @ ''C'')"

definition fullLog :: ops_state where
  "fullLog = emptyState\<lparr>alerts := replicate 99 rpmWarning @ [tempCritical],
                         totalAlerts := 100, criticalAlerts := 1\<rparr>"

definition oneAlert :: ops_state where
  "oneAlert = emptyState\<lparr>alerts := [tempCritical], totalAlerts := 1, criticalAlerts := 1\<rparr>"

text \<open>
  A fragment that arrives late: it carries an older event timestamp and 900 rpm. Then
  fragments for the rules of the operational state.
\<close>

definition staleFragment :: json where
  "staleFragment = JObj [(''vesselId'', JStr ''v1''), (''timestamp'', JStr ''2025-01-25T11:00:00.000Z''),
                         (''engine'', JObj [(''rpm'', JNum 900)])]"

definition bareFragment :: json where
  "bareFragment = JObj [(''vesselId'', JStr ''v1'')]"

definition warmFragment :: json where
  "warmFragment = JObj [(''vesselId'', JStr ''v1''), (''engine'', JObj [(''temperature'', JNum 80)])]"

text \<open>
  A fragment of a second vessel, and a fragment that carries the three fields that an
  update assigns itself.
\<close>

definition otherFragment :: json where
  "otherFragment = JObj [(''vesselId'', JStr ''v2''), (''engine'', JObj [(''rpm'', JNum 300)])]"

definition labelledFragment :: json where
  "labelledFragment = JObj [(''vesselId'', JStr ''v1''), (''status'', JStr ''maintenance''),
                            (''lastSeen'', JStr ''2025-01-25T11:00:00.000Z''),
                            (''operationalState'', JStr ''moored'')]"

definition maintenanceFragment :: json where
  "maintenanceFragment = JObj [(''vesselId'', JStr ''v1''), (''operational'', JStr ''maintenance''),
                               (''engine'', JObj [(''rpm'', JNum 1200)])]"

definition locatedFragment :: json where
  "locatedFragment = JObj [(''vesselId'', JStr ''v1''),
                           (''location'', JObj [(''latitude'', JNum 48), (''longitude'', JNum (-123))])]"

text \<open>
  A sample of vessel v1 taken at 11:58, two minutes before noon, with 1200 rpm and no
  other reading; a table that holds it; a table that holds one sample seven hours old;
  and the record of an idle vessel, engine at rest.
\<close>

definition sampleRow :: telemetry_row where
  "sampleRow =
     \<lparr>row_id = 1, vessel_id = ''v1'', timestamp = noon - 120000,
      engine_rpm = Some 1200, engine_temp = None, fuel_flow = None, battery_soc = None,
      voltage = None, generator_load = None, speed = None, heading = None, latitude = None,
      longitude = None, bilge_level = None, co2_level = None, operational_state = None,
      created_at = noon - 120000\<rparr>"

definition sampleDatabase :: database where
  "sampleDatabase = emptyDatabase\<lparr>telemetry := [sampleRow], telemetry_seq := 1\<rparr>"

definition oldDatabase :: database where
  "oldDatabase = emptyDatabase\<lparr>telemetry := [sampleRow\<lparr>timestamp := noon - 7 * 3600000\<rparr>],
                                  telemetry_seq := 1\<rparr>"

definition idleVessel :: json where
  "idleVessel = JObj [(''vesselId'', JStr ''v1''),
                      (''engine'', JObj [(''rpm'', JNum 0), (''temperature'', JNum 75)])]"

text \<open>The vessel and the metric of a bucket.\<close>

definition bucket_key :: "bucket \<Rightarrow> string \<times> string" where
  "bucket_key b = (case b of (v, start, intervalType, metric, rest) \<Rightarrow> (v, metric))"

definition bucket_metric :: "bucket \<Rightarrow> string" where
  "bucket_metric b = snd (bucket_key b)"

section \<open>Reading a merged record\<close>

lemma map_of_own_props_JObj: "map_of (own_props (JObj kvs)) = map_of kvs"
  by (simp add: own_props_def map_of_clearjunk)

lemma js_get_JObj: "js_get (JObj kvs) k = (case map_of kvs k of Some x \<Rightarrow> x | None \<Rightarrow> JUndefined)"
  by (simp add: js_get_def map_of_own_props_JObj)

lemma own_props_primitive [simp]:
  "own_props JUndefined = []" "own_props JNull = []" "own_props (JBool b) = []" "own_props (JNum q) = []"
  by (simp_all add: own_props_def)

lemma js_get_primitive [simp]:
  "js_get JUndefined k = JUndefined" "js_get JNull k = JUndefined"
  "js_get (JBool b) k = JUndefined" "js_get (JNum q) k = JUndefined"
  by (simp_all add: js_get_def)

lemma truthy_mergeVessel [simp]: "truthy (mergeVessel P now ex f)"
  by (simp add: mergeVessel_def Let_def)

lemma distinct_own_props: "distinct (map fst (own_props v))"
  by (simp add: own_props_def distinct_clearjunk)

lemma falsy_no_props: "\<not> truthy v \<Longrightarrow> own_props v = []"
  by (cases v) (simp_all add: own_props_def)

lemma js_get_falsy: "\<not> truthy v \<Longrightarrow> js_get v k = JUndefined"
  by (simp add: js_get_def falsy_no_props)

lemma has_own_falsy: "\<not> truthy v \<Longrightarrow> \<not> has_own v k"
  by (simp add: has_own_def falsy_no_props)

lemma js_get_js_or_empty: "js_get (js_or v (JObj [])) k = js_get v k"
  by (simp add: js_or_def js_get_falsy js_get_JObj)

lemma map_of_fold_update:
  "distinct (map fst s) \<Longrightarrow> map_of (fold (\<lambda>(k, x). AList.update k x) s t) = map_of t ++ map_of s"
proof (induction s arbitrary: t)
  case Nil
  then show ?case by simp
next
  case (Cons p s)
  obtain k x where p: "p = (k, x)" by (cases p)
  from Cons.prems p have fresh: "map_of s k = None" and d: "distinct (map fst s)"
    by (auto simp: map_of_eq_None_iff)
  have "map_of (fold (\<lambda>(k, x). AList.update k x) (p # s) t) = map_of (AList.update k x t) ++ map_of s"
    using Cons.IH [OF d] p by simp
  also have "\<dots> = map_of t ++ map_of (p # s)"
    using fresh p by (auto simp: update_conv' map_add_def fun_eq_iff split: option.splits)
  finally show ?case .
qed

lemma map_of_assign: "map_of (assign t v) = map_of t ++ map_of (own_props v)"
  by (simp add: assign_def map_of_fold_update distinct_own_props)

lemma js_get_assign:
  "js_get (JObj (assign (assign [] a) b)) k = (if has_own b k then js_get b k else js_get a k)"
  by (auto simp: js_get_def map_of_own_props_JObj map_of_assign map_add_def has_own_def split: option.splits)

lemma map_of_mergeGroups:
  "map_of (fold (mergeGroup ex f) gs m) k =
     (if k \<in> set gs \<and> (truthy (js_get f k) \<or> truthy (js_get ex k))
      then Some (JObj (assign (assign [] (js_get ex k)) (js_get f k)))
      else map_of m k)"
  by (induction gs arbitrary: m) (auto simp: mergeGroup_def update_conv')

lemma map_of_shallowMerge:
  "map_of (shallowMerge P now ex f) k =
     (if k = ''status'' then Some (JStr (determineVesselStatus P f))
      else if k = ''lastSeen'' then Some (JStr (toISOString P now))
      else (map_of (own_props ex) ++ map_of (own_props f)) k)"
  by (simp add: shallowMerge_def update_conv' map_of_assign)

lemma shallow_lookup:
  "(case (map_of (own_props ex) ++ map_of (own_props f)) k of Some x \<Rightarrow> x | None \<Rightarrow> JUndefined) =
     (if has_own f k then js_get f k else js_get ex k)"
  by (auto simp: map_add_def has_own_def js_get_def split: option.splits)

text \<open>The stored record, read key by key.\<close>

lemma js_get_mergeVessel:
  "js_get (mergeVessel P now ex f) k =
     (if k \<in> set groups \<and> (truthy (js_get f k) \<or> truthy (js_get ex k))
      then JObj (assign (assign [] (js_get ex k)) (js_get f k))
      else if k = ''operationalState''
      then getOperationalState P now (JObj (shallowMerge P now ex f))
      else if k = ''status'' then JStr (determineVesselStatus P f)
      else if k = ''lastSeen'' then JStr (toISOString P now)
      else if has_own f k then js_get f k else js_get ex k)"
proof -
  have ng: "''operationalState'' \<notin> set groups" "''status'' \<notin> set groups" "''lastSeen'' \<notin> set groups"
    by (simp_all add: groups_def)
  have "k \<in> set groups \<Longrightarrow> k \<noteq> ''operationalState'' \<and> k \<noteq> ''status'' \<and> k \<noteq> ''lastSeen''"
    using ng by auto
  then show ?thesis
    by (auto simp: mergeVessel_def Let_def js_get_JObj map_of_mergeGroups update_conv'
          map_of_shallowMerge shallow_lookup)
qed

lemma js_get_shallowMerge:
  "js_get (JObj (shallowMerge P now ex f)) k =
     (if k = ''status'' then JStr (determineVesselStatus P f)
      else if k = ''lastSeen'' then JStr (toISOString P now)
      else if has_own f k then js_get f k else js_get ex k)"
  by (simp add: js_get_JObj map_of_shallowMerge shallow_lookup)

lemma merged_group_field:
  assumes "g \<in> set groups"
  shows "js_get (js_get (mergeVessel P now ex f) g) k =
           (if has_own (js_get f g) k then js_get (js_get f g) k else js_get (js_get ex g) k)"
proof (cases "truthy (js_get f g) \<or> truthy (js_get ex g)")
  case True
  with assms show ?thesis by (simp add: js_get_mergeVessel js_get_assign)
next
  case False
  then have ff: "\<not> truthy (js_get f g)" and fe: "\<not> truthy (js_get ex g)" by simp_all
  from assms have g: "g \<noteq> ''operationalState''" "g \<noteq> ''status''" "g \<noteq> ''lastSeen''"
    by (auto simp: groups_def)
  have "js_get (mergeVessel P now ex f) g = (if has_own f g then js_get f g else js_get ex g)"
    using False g by (simp add: js_get_mergeVessel)
  then have "\<not> truthy (js_get (mergeVessel P now ex f) g)"
    using ff fe by simp
  then have "js_get (js_get (mergeVessel P now ex f) g) k = JUndefined"
    by (rule js_get_falsy)
  moreover have "\<not> has_own (js_get f g) k" using ff by (rule has_own_falsy)
  moreover have "js_get (js_get ex g) k = JUndefined" using fe by (rule js_get_falsy)
  ultimately show ?thesis by simp
qed

lemma merged_top_field:
  assumes "k \<notin> set groups" "k \<noteq> ''operationalState''" "k \<noteq> ''status''" "k \<noteq> ''lastSeen''"
  shows "js_get (mergeVessel P now ex f) k = (if has_own f k then js_get f k else js_get ex k)"
  using assms by (simp add: js_get_mergeVessel)

lemma fleet_fold_addAlert: "fleet (fold addAlert as st) = fleet st"
  by (induction as arbitrary: st) (simp_all add: addAlert_def broadcastToClients_def)

lemma alerts_fold_addAlert: "alerts (fold addAlert as st) = rev as @ alerts st"
  by (induction as arbitrary: st) (simp_all add: addAlert_def broadcastToClients_def)

lemma fleet_checkForAlerts: "fleet (checkForAlerts P now vd st) = fleet st"
  by (simp add: checkForAlerts_def Let_def updateAlertCounts_def fleet_fold_addAlert)

lemma fleet_onFragment:
  "fleet (onFragment P (now, f) st) =
     (if f = JUndefined \<or> f = JNull then fleet st
      else AList.update (js_get f ''vesselId'')
             (mergeVessel P now (js_or (Map_get (fleet st) (js_get f ''vesselId'')) (JObj [])) f)
             (fleet st))"
  by (simp add: onFragment_def updateVesselData_def Let_def broadcastToClients_def fleet_checkForAlerts)

lemma Map_get_update: "Map_get (AList.update k v m) k' = (if k' = k then v else Map_get m k')"
  by (simp add: Map_get_def update_conv')

text \<open>The record of a vessel after one fragment has arrived.\<close>

lemma vessel_onFragment:
  "Map_get (fleet (onFragment P (now, f) st)) v =
     (if f \<noteq> JUndefined \<and> f \<noteq> JNull \<and> js_get f ''vesselId'' = v
      then mergeVessel P now (js_or (Map_get (fleet st) v) (JObj [])) f
      else Map_get (fleet st) v)"
  by (auto simp: fleet_onFragment Map_get_update)

lemmas look = js_get_JObj has_own_def map_of_own_props_JObj map_of_assign map_add_def

section \<open>Status of a vessel\<close>

text \<open>
  C4. The claim: after a fragment is applied, the status is the first match of the rules
  over the fully merged record, so a fragment that omits a group keeps a status owed to
  the fields merged before. The code computes \<open>status: determineVesselStatus(vesselData)\<close>
  from the fragment alone. Vessel v1 reports a fire alarm; a second later it reports
  1200 rpm and nothing else. The stored record still holds \<open>safety.fireAlarm = true\<close>,
  the rules over that record give \<open>emergency\<close>, and the stored status is \<open>normal\<close>.
\<close>

theorem C4_status_from_fragment_only:
  "let st = applyAll examplePlatform [(noon, fireFragment), (noon + 1000, rpmFragment)] emptyState;
       vessel = Map_get (fleet st) (JStr ''v1'')
   in js_get (js_get vessel ''safety'') ''fireAlarm'' = JBool True \<and>
      js_get vessel ''status'' = JStr ''normal'' \<and>
      determineVesselStatus examplePlatform vessel = ''emergency''"
proof -
  have v: "js_get fireFragment ''vesselId'' = JStr ''v1''" "js_get rpmFragment ''vesselId'' = JStr ''v1''"
    by (simp_all add: fireFragment_def rpmFragment_def js_get_JObj)
  show ?thesis
    apply (simp add: applyAll_def vessel_onFragment v Let_def)
    apply (simp add: fireFragment_def rpmFragment_def emptyState_def Map_get_def js_or_def)
    apply (simp add: merged_group_field groups_def js_get_mergeVessel determineVesselStatus_def
        look js_gt_def js_lt_def)
    done
qed

section \<open>Statistics\<close>

text \<open>
  C9. The claim: with no matching row, \<open>getStatistics\<close> returns the zeroed record
  \<open>{min: 0, max: 0, avg: 0, count: 0}\<close>. On an empty table the aggregate query still
  yields its one row, with \<open>NULL\<close> for the minimum, the maximum and the average, and that
  row is what the promise resolves to: the zeroed record behind \<open>||\<close> is never taken.
\<close>

theorem C9_statistics_of_no_rows:
  "getStatistics ''v1'' ''engine_rpm'' ''24h'' noon emptyDatabase =
     JObj [(''min'', JNull), (''max'', JNull), (''avg'', JNull), (''count'', JNum 0)]"
  by (simp add: getStatistics_def column_def nonNull_def emptyDatabase_def sql_min_def sql_max_def
        sql_avg_def sqlNumber_def js_or_def List.map_filter_simps)

section \<open>Alerts\<close>

lemma number_106: "NumberToString examplePlatform 106 = ''106''"
  by (simp add: examplePlatform_def integerText_def decimal.simps)

lemma iso_noon: "toISOString examplePlatform noon = ''2025-01-25T12:00:00.000Z''"
  unfolding noon_def by code_simp

lemma iso_noon1: "toISOString examplePlatform (noon + 1000) = ''2025-01-25T12:00:01.000Z''"
  unfolding noon_def by code_simp

lemma count_list_replicate: "count_list (replicate n x) y = (if x = y then n else 0)"
  by (induction n) auto

lemma alerts_checkForAlerts:
  "alerts (checkForAlerts P now vd st) = take 100 (rev (newAlerts P now vd) @ alerts st)"
  by (simp add: checkForAlerts_def Let_def updateAlertCounts_def alerts_fold_addAlert)

lemma reading_gt: "js_gt P (reading r) c = (case r of None \<Rightarrow> False | Some q \<Rightarrow> c < q)"
  by (simp add: reading_def js_gt_def split: option.splits)

lemma reading_lt: "js_lt P (reading r) c = (case r of None \<Rightarrow> False | Some q \<Rightarrow> q < c)"
  by (simp add: reading_def js_lt_def split: option.splits)

text \<open>The alerts of a fragment whose readings are numbers, a flag, or absent.\<close>

lemma newAlerts_readings:
  assumes "js_get (js_get vd ''engine'') ''temperature'' = reading temperature"
    and "js_get (js_get vd ''engine'') ''rpm'' = reading rpm"
    and "js_get (js_get vd ''power'') ''batterySOC'' = reading batterySOC"
    and "js_get (js_get vd ''safety'') ''bilgeLevel'' = reading bilgeLevel"
    and "js_get (js_get vd ''safety'') ''fireAlarm'' = flag fireAlarm"
  shows "newAlerts P now vd =
     (case temperature of
        None \<Rightarrow> []
      | Some t \<Rightarrow>
          if 95 < t
          then [mkAlert P now (js_get vd ''vesselId'') ''engine-temp'' ''engine''
                  (if 105 < t then ''critical'' else ''warning'')
                  (''Engine temperature high: '' @ NumberToString P t @ degree @ ''C'')]
          else [])
     @ (case rpm of
          None \<Rightarrow> []
        | Some r \<Rightarrow>
            if 1800 < r
            then [mkAlert P now (js_get vd ''vesselId'') ''engine-rpm'' ''engine'' ''warning''
                    (''Engine RPM high: '' @ NumberToString P r)]
            else [])
     @ (case batterySOC of
          None \<Rightarrow> []
        | Some b \<Rightarrow>
            if b < 25
            then [mkAlert P now (js_get vd ''vesselId'') ''battery-low'' ''power''
                    (if b < 15 then ''critical'' else ''warning'')
                    (''Battery SOC low: '' @ NumberToString P b @ ''%'')]
            else [])
     @ (case bilgeLevel of
          None \<Rightarrow> []
        | Some l \<Rightarrow>
            if 40 < l
            then [mkAlert P now (js_get vd ''vesselId'') ''bilge-high'' ''safety''
                    (if 60 < l then ''critical'' else ''warning'')
                    (''Bilge level high: '' @ NumberToString P l @ ''cm'')]
            else [])
     @ (if fireAlarm = Some True
        then [mkAlert P now (js_get vd ''vesselId'') ''fire-alarm'' ''emergency'' ''critical''
                (fire @ '' FIRE ALARM ACTIVATED on '' @ ToString P (js_get vd ''vesselId''))]
        else [])"
proof -
  have t: "ToString P (reading (Some q)) = NumberToString P q" for q
    by (simp add: reading_def)
  have f: "(flag fireAlarm = JBool True) = (fireAlarm = Some True)"
    by (simp add: flag_def split: option.splits)
  show ?thesis
    unfolding newAlerts_def Let_def assms reading_gt reading_lt f
    by (simp add: t split: option.splits)
qed

text \<open>
  C6. Alert evaluation is per condition and independent. For a fragment whose readings
  are numbers (or absent) and whose fire alarm is a boolean (or absent), the alerts are,
  in this order and each on its own reading: temperature above 95, a warning, above 105
  critical, type engine, with the reading in the message; rpm above 1800, a warning;
  battery charge below 25, a warning, below 15 critical, type power; bilge level above
  40, a warning, above 60 critical, type safety; fire alarm true, one critical alert of
  type emergency.
\<close>

theorem C6_alert_thresholds:
  assumes "js_get (js_get vd ''engine'') ''temperature'' = reading temperature"
    and "js_get (js_get vd ''engine'') ''rpm'' = reading rpm"
    and "js_get (js_get vd ''power'') ''batterySOC'' = reading batterySOC"
    and "js_get (js_get vd ''safety'') ''bilgeLevel'' = reading bilgeLevel"
    and "js_get (js_get vd ''safety'') ''fireAlarm'' = flag fireAlarm"
  shows "newAlerts P now vd =
     (case temperature of
        None \<Rightarrow> []
      | Some t \<Rightarrow>
          if 95 < t
          then [mkAlert P now (js_get vd ''vesselId'') ''engine-temp'' ''engine''
                  (if 105 < t then ''critical'' else ''warning'')
                  (''Engine temperature high: '' @ NumberToString P t @ degree @ ''C'')]
          else [])
     @ (case rpm of
          None \<Rightarrow> []
        | Some r \<Rightarrow>
            if 1800 < r
            then [mkAlert P now (js_get vd ''vesselId'') ''engine-rpm'' ''engine'' ''warning''
                    (''Engine RPM high: '' @ NumberToString P r)]
            else [])
     @ (case batterySOC of
          None \<Rightarrow> []
        | Some b \<Rightarrow>
            if b < 25
            then [mkAlert P now (js_get vd ''vesselId'') ''battery-low'' ''power''
                    (if b < 15 then ''critical'' else ''warning'')
                    (''Battery SOC low: '' @ NumberToString P b @ ''%'')]
            else [])
     @ (case bilgeLevel of
          None \<Rightarrow> []
        | Some l \<Rightarrow>
            if 40 < l
            then [mkAlert P now (js_get vd ''vesselId'') ''bilge-high'' ''safety''
                    (if 60 < l then ''critical'' else ''warning'')
                    (''Bilge level high: '' @ NumberToString P l @ ''cm'')]
            else [])
     @ (if fireAlarm = Some True
        then [mkAlert P now (js_get vd ''vesselId'') ''fire-alarm'' ''emergency'' ''critical''
                (fire @ '' FIRE ALARM ACTIVATED on '' @ ToString P (js_get vd ''vesselId''))]
        else [])"
  using assms by (rule newAlerts_readings)

text \<open>
  At 106 degrees: exactly one alert, critical, of type engine, with 106 in its message.
  At 14 percent of charge exactly one critical power alert, at 24 percent exactly one
  warning.
\<close>

theorem C6_alert_thresholds_witness:
  "newAlerts examplePlatform noon hotFragment =
     [JObj [(''id'', JStr (''v1-engine-temp-'' @ NumberToString examplePlatform (of_int noon))),
            (''vesselId'', JStr ''v1''), (''type'', JStr ''engine''), (''severity'', JStr ''critical''),
            (''message'', JStr (''Engine temperature high: 106'' @ degree @ ''C'')),
            (''timestamp'', JStr (toISOString examplePlatform noon))]] \<and>
   map (\<lambda>a. (js_get a ''type'', js_get a ''severity'')) (newAlerts examplePlatform noon (lowBattery 14)) =
     [(JStr ''power'', JStr ''critical'')] \<and>
   map (\<lambda>a. (js_get a ''type'', js_get a ''severity'')) (newAlerts examplePlatform noon (lowBattery 24)) =
     [(JStr ''power'', JStr ''warning'')]"
  using C6_alert_thresholds [of hotFragment "Some 106" None None None None examplePlatform noon]
    C6_alert_thresholds [of "lowBattery 14" None None "Some 14" None None examplePlatform noon]
    C6_alert_thresholds [of "lowBattery 24" None None "Some 24" None None examplePlatform noon]
  by (simp add: hotFragment_def lowBattery_def js_get_JObj reading_def flag_def mkAlert_def number_106)

text \<open>
  C3, as amended. After threshold evaluation the log is the first 100 entries of the new
  alerts (the last one emitted first) followed by the old log: at most 100 entries,
  whatever their severity.
\<close>

theorem C3_cap_after_threshold_evaluation:
  "alerts (checkForAlerts P now vesselData st) = take 100 (rev (newAlerts P now vesselData) @ alerts st) \<and>
   length (alerts (checkForAlerts P now vesselData st)) \<le> 100"
  by (simp add: alerts_checkForAlerts)

text \<open>
  C3, as claimed, fails. The log holds 100 alerts of one instant, the critical one last.
  One more warning arrives: the critical alert is dropped and the 99 warnings of its age
  stay. And \<open>handleEmergencyAlert\<close> does not cut the log: it leaves 101 entries.
\<close>

theorem C3_trim_ignores_severity:
  "length (alerts fullLog) = 100 \<and>
   js_get tempCritical ''severity'' = JStr ''critical'' \<and>
   js_get rpmWarning ''severity'' = JStr ''warning'' \<and>
   js_get tempCritical ''timestamp'' = js_get rpmWarning ''timestamp'' \<and>
   tempCritical \<notin> set (alerts (checkForAlerts examplePlatform (noon + 1000) fastFragment fullLog)) \<and>
   count_list (alerts (checkForAlerts examplePlatform (noon + 1000) fastFragment fullLog)) rpmWarning = 99 \<and>
   map_sum id (\<lambda>st. length (alerts st))
     (handleEmergencyAlert examplePlatform (noon + 1000) (JObj [(''vesselId'', JStr ''v1'')]) fullLog) = Inr 101"
proof -
  let ?new = "mkAlert examplePlatform (noon + 1000) (JStr ''v1'') ''engine-rpm'' ''engine'' ''warning''
                (''Engine RPM high: '' @ NumberToString examplePlatform 1900)"
  have n: "newAlerts examplePlatform (noon + 1000) fastFragment = [?new]"
    using newAlerts_readings [of fastFragment None "Some 1900" None None None examplePlatform "noon + 1000"]
    by (simp add: fastFragment_def js_get_JObj reading_def flag_def)
  have log: "alerts (checkForAlerts examplePlatform (noon + 1000) fastFragment fullLog) =
               ?new # replicate 99 rpmWarning"
    by (simp add: alerts_checkForAlerts n fullLog_def emptyState_def)
  have d1: "tempCritical \<noteq> rpmWarning" "tempCritical \<noteq> ?new"
    by (simp_all add: tempCritical_def rpmWarning_def mkAlert_def)
  have d2: "?new \<noteq> rpmWarning"
    by (simp add: rpmWarning_def mkAlert_def iso_noon iso_noon1)
  have e: "map_sum id (\<lambda>st. length (alerts st))
             (handleEmergencyAlert examplePlatform (noon + 1000) (JObj [(''vesselId'', JStr ''v1'')]) fullLog) = Inr 101"
    by (simp add: handleEmergencyAlert_def Let_def updateAlertCounts_def broadcastToClients_def
          fullLog_def emptyState_def)
  have s: "js_get tempCritical ''severity'' = JStr ''critical''" "js_get rpmWarning ''severity'' = JStr ''warning''"
    "js_get tempCritical ''timestamp'' = js_get rpmWarning ''timestamp''"
    by (simp_all add: tempCritical_def rpmWarning_def mkAlert_def js_get_JObj)
  have l: "length (alerts fullLog) = 100"
    by (simp add: fullLog_def emptyState_def)
  show ?thesis
    using d1 d2 by (simp add: log e s l count_list_replicate)
qed

section \<open>Acknowledging an alert\<close>

lemma findIndex_None: "(findIndex p xs = None) = (\<forall>x\<in>set xs. \<not> p x)"
  by (induction xs) auto

lemma findIndex_first:
  "(findIndex p xs = Some i) = (i < length xs \<and> p (xs ! i) \<and> (\<forall>j<i. \<not> p (xs ! j)))"
proof (induction xs arbitrary: i)
  case Nil
  then show ?case by simp
next
  case (Cons x xs)
  show ?case
  proof (cases "p x")
    case True
    then show ?thesis by (cases i) auto
  next
    case False
    show ?thesis
    proof (cases i)
      case 0
      with False show ?thesis by simp
    next
      case (Suc n)
      have "(\<forall>j<Suc n. \<not> p ((x # xs) ! j)) = (\<forall>j<n. \<not> p (xs ! j))"
        using False by (auto simp: less_Suc_eq_0_disj)
      with False Suc Cons.IH [of n] show ?thesis by auto
    qed
  qed
qed

lemma js_get_set_prop:
  "js_get (set_prop k x (JObj kvs)) k' = (if k' = k then x else js_get (JObj kvs) k')"
  by (simp add: set_prop_def js_get_JObj update_conv')

text \<open>One acknowledgement of the alert at the first index that carries the id.\<close>

lemma acknowledge_first:
  assumes i: "i < length (alerts st)" "js_get (alerts st ! i) ''id'' = alertId"
      "\<forall>j<i. js_get (alerts st ! j) ''id'' \<noteq> alertId"
    and obj: "alerts st ! i = JObj kvs"
  shows "acknowledgeAlert P now alertId st =
           st\<lparr>alerts := (alerts st)[i := JObj (AList.update ''acknowledgedAt'' (JStr (toISOString P now))
                                              (AList.update ''acknowledged'' (JBool True) kvs))],
              sent := sent st @ [JObj [(''type'', JStr ''alert_acknowledged''),
                                       (''data'', JObj [(''alertId'', alertId),
                                                        (''acknowledgedAt'', JStr (toISOString P now))])]]\<rparr>"
proof -
  have "findIndex (\<lambda>a. js_get a ''id'' = alertId) (alerts st) = Some i"
    using i by (simp add: findIndex_first)
  then show ?thesis
    by (simp add: acknowledgeAlert_def Let_def obj set_prop_def broadcastToClients_def)
qed

text \<open>
  C7, as amended. When no alert of the log carries the id, \<open>acknowledgeAlert\<close> changes
  nothing and tells nobody. Otherwise the first alert with the id gets
  \<open>acknowledged = true\<close> and \<open>acknowledgedAt = now\<close>, keeps its other properties, the
  other alerts stay, and the clients are told. Acknowledging it again later raises no
  error and writes the later time over \<open>acknowledgedAt\<close>.
\<close>

theorem C7_acknowledge:
  "((\<forall>a\<in>set (alerts st). js_get a ''id'' \<noteq> alertId) \<longrightarrow> acknowledgeAlert P now alertId st = st) \<and>
   (\<forall>i kvs. i < length (alerts st) \<and> js_get (alerts st ! i) ''id'' = alertId \<and>
       (\<forall>j<i. js_get (alerts st ! j) ''id'' \<noteq> alertId) \<and> alerts st ! i = JObj kvs \<longrightarrow>
      (let st1 = acknowledgeAlert P now alertId st;
           st2 = acknowledgeAlert P later alertId st1
       in length (alerts st1) = length (alerts st) \<and>
          (\<forall>j. j \<noteq> i \<longrightarrow> alerts st1 ! j = alerts st ! j) \<and>
          js_get (alerts st1 ! i) ''acknowledged'' = JBool True \<and>
          js_get (alerts st1 ! i) ''acknowledgedAt'' = JStr (toISOString P now) \<and>
          (\<forall>k. k \<noteq> ''acknowledged'' \<and> k \<noteq> ''acknowledgedAt'' \<longrightarrow>
               js_get (alerts st1 ! i) k = js_get (alerts st ! i) k) \<and>
          sent st1 = sent st @ [JObj [(''type'', JStr ''alert_acknowledged''),
                                      (''data'', JObj [(''alertId'', alertId),
                                                       (''acknowledgedAt'', JStr (toISOString P now))])]] \<and>
          js_get (alerts st2 ! i) ''acknowledged'' = JBool True \<and>
          js_get (alerts st2 ! i) ''acknowledgedAt'' = JStr (toISOString P later)))"
proof (intro conjI impI allI)
  assume "\<forall>a\<in>set (alerts st). js_get a ''id'' \<noteq> alertId"
  then have "findIndex (\<lambda>a. js_get a ''id'' = alertId) (alerts st) = None"
    by (simp add: findIndex_None)
  then show "acknowledgeAlert P now alertId st = st"
    by (simp add: acknowledgeAlert_def)
next
  fix i kvs
  assume h: "i < length (alerts st) \<and> js_get (alerts st ! i) ''id'' = alertId \<and>
       (\<forall>j<i. js_get (alerts st ! j) ''id'' \<noteq> alertId) \<and> alerts st ! i = JObj kvs"
  from h have h1: "i < length (alerts st)" and e1: "js_get (alerts st ! i) ''id'' = alertId"
    and h3: "\<forall>j<i. js_get (alerts st ! j) ''id'' \<noteq> alertId" and e2: "alerts st ! i = JObj kvs"
    by blast+
  note h2 = e1
  let ?kvs1 = "AList.update ''acknowledgedAt'' (JStr (toISOString P now))
                 (AList.update ''acknowledged'' (JBool True) kvs)"
  let ?st1 = "acknowledgeAlert P now alertId st"
  have st1: "?st1 = st\<lparr>alerts := (alerts st)[i := JObj ?kvs1],
              sent := sent st @ [JObj [(''type'', JStr ''alert_acknowledged''),
                                       (''data'', JObj [(''alertId'', alertId),
                                                        (''acknowledgedAt'', JStr (toISOString P now))])]]\<rparr>"
    by (rule acknowledge_first [OF h1 h2 h3 e2])
  have a1: "alerts ?st1 = (alerts st)[i := JObj ?kvs1]"
    by (simp add: st1)
  from e1 have "js_get (JObj kvs) ''id'' = alertId"
    unfolding e2 .
  then have id1: "js_get (JObj ?kvs1) ''id'' = alertId"
    by (simp add: js_get_JObj update_conv')
  have i1: "i < length (alerts ?st1)" "js_get (alerts ?st1 ! i) ''id'' = alertId"
    "\<forall>j<i. js_get (alerts ?st1 ! j) ''id'' \<noteq> alertId" "alerts ?st1 ! i = JObj ?kvs1"
    using h id1 by (simp_all add: a1)
  have a2: "alerts (acknowledgeAlert P later alertId ?st1) =
              (alerts ?st1)[i := JObj (AList.update ''acknowledgedAt'' (JStr (toISOString P later))
                                         (AList.update ''acknowledged'' (JBool True) ?kvs1))]"
    by (subst acknowledge_first [OF i1]) simp
  show "let st1 = acknowledgeAlert P now alertId st;
           st2 = acknowledgeAlert P later alertId st1
       in length (alerts st1) = length (alerts st) \<and>
          (\<forall>j. j \<noteq> i \<longrightarrow> alerts st1 ! j = alerts st ! j) \<and>
          js_get (alerts st1 ! i) ''acknowledged'' = JBool True \<and>
          js_get (alerts st1 ! i) ''acknowledgedAt'' = JStr (toISOString P now) \<and>
          (\<forall>k. k \<noteq> ''acknowledged'' \<and> k \<noteq> ''acknowledgedAt'' \<longrightarrow>
               js_get (alerts st1 ! i) k = js_get (alerts st ! i) k) \<and>
          sent st1 = sent st @ [JObj [(''type'', JStr ''alert_acknowledged''),
                                      (''data'', JObj [(''alertId'', alertId),
                                                       (''acknowledgedAt'', JStr (toISOString P now))])]] \<and>
          js_get (alerts st2 ! i) ''acknowledged'' = JBool True \<and>
          js_get (alerts st2 ! i) ''acknowledgedAt'' = JStr (toISOString P later)"
    unfolding Let_def a2 using h
    by (simp add: a1 st1 js_get_JObj update_conv')
qed

text \<open>On a log of one alert: an unknown id, and the alert's own id.\<close>

theorem C7_acknowledge_witness:
  "acknowledgeAlert examplePlatform noon (JStr ''no-such-alert'') oneAlert = oneAlert \<and>
   js_get (alerts (acknowledgeAlert examplePlatform noon (js_get tempCritical ''id'') oneAlert) ! 0)
     ''acknowledged'' = JBool True \<and>
   js_get (alerts (acknowledgeAlert examplePlatform noon (js_get tempCritical ''id'') oneAlert) ! 0)
     ''acknowledgedAt'' = JStr ''2025-01-25T12:00:00.000Z''"
proof -
  obtain kvs where t: "tempCritical = JObj kvs"
    by (simp add: tempCritical_def mkAlert_def)
  have a: "alerts oneAlert = [tempCritical]"
    by (simp add: oneAlert_def emptyState_def)
  have n: "js_get tempCritical ''id'' \<noteq> JStr ''no-such-alert''"
    by (simp add: tempCritical_def mkAlert_def js_get_JObj)
  have 1: "acknowledgeAlert examplePlatform noon (JStr ''no-such-alert'') oneAlert = oneAlert"
    using C7_acknowledge [of oneAlert "JStr ''no-such-alert''" examplePlatform noon noon, THEN conjunct1] n
    by (simp add: a)
  have 2: "js_get (alerts (acknowledgeAlert examplePlatform noon (js_get tempCritical ''id'') oneAlert) ! 0)
     ''acknowledged'' = JBool True \<and>
   js_get (alerts (acknowledgeAlert examplePlatform noon (js_get tempCritical ''id'') oneAlert) ! 0)
     ''acknowledgedAt'' = JStr (toISOString examplePlatform noon)"
    using C7_acknowledge [of oneAlert "js_get tempCritical ''id''" examplePlatform noon noon,
        THEN conjunct2, rule_format, of 0 kvs] t
    by (simp add: a Let_def)
  from 1 2 show ?thesis by (simp add: iso_noon)
qed

text \<open>
  C7, as claimed, fails: the second acknowledgement, a second later, changes the record
  (its \<open>acknowledgedAt\<close> moves), and an unknown id is reported to nobody.
\<close>

theorem C7_second_acknowledge_overwrites:
  "let alertId = js_get tempCritical ''id'';
       st1 = acknowledgeAlert examplePlatform noon alertId oneAlert;
       st2 = acknowledgeAlert examplePlatform (noon + 1000) alertId st1
   in js_get (alerts st1 ! 0) ''acknowledgedAt'' = JStr ''2025-01-25T12:00:00.000Z'' \<and>
      js_get (alerts st2 ! 0) ''acknowledgedAt'' = JStr ''2025-01-25T12:00:01.000Z'' \<and>
      alerts st2 \<noteq> alerts st1 \<and>
      sent (acknowledgeAlert examplePlatform noon (JStr ''no-such-alert'') oneAlert) = []"
  by (simp add: acknowledgeAlert_def oneAlert_def emptyState_def tempCritical_def mkAlert_def
        js_get_JObj set_prop_def broadcastToClients_def Let_def update_conv' iso_noon iso_noon1)

section \<open>Merging fragments\<close>

lemma js_get_not_own: "\<not> has_own v k \<Longrightarrow> js_get v k = JUndefined"
  by (simp add: has_own_def js_get_def)

lemma has_own_nullish [simp]: "\<not> has_own JUndefined k" "\<not> has_own JNull k"
  by (simp_all add: has_own_def)

lemma group_field_onFragment:
  assumes "g \<in> set groups"
  shows "js_get (js_get (Map_get (fleet (onFragment P (now, f) st)) v) g) k =
           (if js_get f ''vesselId'' = v \<and> has_own (js_get f g) k then js_get (js_get f g) k
            else js_get (js_get (Map_get (fleet st) v) g) k)"
proof (cases "f = JUndefined \<or> f = JNull")
  case True
  then show ?thesis by (auto simp: vessel_onFragment)
next
  case False
  then show ?thesis
    by (simp add: vessel_onFragment merged_group_field [OF assms] js_get_js_or_empty)
qed

lemma top_field_onFragment:
  assumes "k \<notin> set groups" "k \<noteq> ''operationalState''" "k \<noteq> ''status''" "k \<noteq> ''lastSeen''"
  shows "js_get (Map_get (fleet (onFragment P (now, f) st)) v) k =
           (if js_get f ''vesselId'' = v \<and> has_own f k then js_get f k
            else js_get (Map_get (fleet st) v) k)"
proof (cases "f = JUndefined \<or> f = JNull")
  case True
  then show ?thesis by (auto simp: vessel_onFragment)
next
  case False
  then show ?thesis
    by (simp add: vessel_onFragment merged_top_field [OF assms] js_get_js_or_empty)
qed

lemma group_field_applyAll:
  assumes "g \<in> set groups"
  shows "js_get (js_get (Map_get (fleet (applyAll P ms st)) v) g) k =
           fold (\<lambda>f old. if has_own (js_get f g) k then js_get (js_get f g) k else old)
             (fragmentsFor v ms) (js_get (js_get (Map_get (fleet st) v) g) k)"
proof (induction ms arbitrary: st)
  case Nil
  show ?case by (simp add: applyAll_def fragmentsFor_def)
next
  case (Cons m ms)
  obtain now f where m: "m = (now, f)" by (cases m)
  have "applyAll P (m # ms) st = applyAll P ms (onFragment P (now, f) st)"
    by (simp add: applyAll_def m)
  then show ?case
    using Cons.IH [of "onFragment P (now, f) st"]
    by (simp add: m fragmentsFor_def group_field_onFragment [OF assms])
qed

lemma top_field_applyAll:
  assumes "k \<notin> set groups" "k \<noteq> ''operationalState''" "k \<noteq> ''status''" "k \<noteq> ''lastSeen''"
  shows "js_get (Map_get (fleet (applyAll P ms st)) v) k =
           fold (\<lambda>f old. if has_own f k then js_get f k else old)
             (fragmentsFor v ms) (js_get (Map_get (fleet st) v) k)"
proof (induction ms arbitrary: st)
  case Nil
  show ?case by (simp add: applyAll_def fragmentsFor_def)
next
  case (Cons m ms)
  obtain now f where m: "m = (now, f)" by (cases m)
  have "applyAll P (m # ms) st = applyAll P ms (onFragment P (now, f) st)"
    by (simp add: applyAll_def m)
  then show ?case
    using Cons.IH [of "onFragment P (now, f) st"]
    by (simp add: m fragmentsFor_def top_field_onFragment [OF assms])
qed

text \<open>
  C1, as amended. The merge is field by field and the last writer wins, for every field
  but three. Take any state, any vessel id \<open>v\<close> that is not an object, and any sequence
  of fragments with their arrival times. A field \<open>k\<close> of one of the groups engine, power,
  navigation, location, safety and systems of the stored record holds the value of the
  last fragment for \<open>v\<close> whose group carries \<open>k\<close>, and its value before the sequence
  if none does: a fragment that carries part of a group leaves the rest of the group as
  it was. The same holds for a top-level field that is neither a group nor one of
  \<open>lastSeen\<close>, \<open>status\<close> and \<open>operationalState\<close>, which every update assigns
  anew. Only the order of arrival enters: the arrival times and any timestamp inside a
  fragment play no part.
\<close>

theorem C1_field_level_last_writer_wins:
  assumes "\<not> isObject v"
  shows "(g \<in> set [''engine'', ''power'', ''navigation'', ''location'', ''safety'', ''systems''] \<longrightarrow>
            js_get (js_get (Map_get (fleet (applyAll P ms st)) v) g) k =
              fold (\<lambda>f old. if has_own (js_get f g) k then js_get (js_get f g) k else old)
                (fragmentsFor v ms) (js_get (js_get (Map_get (fleet st) v) g) k)) \<and>
         (k \<notin> set [''engine'', ''power'', ''navigation'', ''location'', ''safety'', ''systems'',
                    ''lastSeen'', ''status'', ''operationalState''] \<longrightarrow>
            js_get (Map_get (fleet (applyAll P ms st)) v) k =
              fold (\<lambda>f old. if has_own f k then js_get f k else old)
                (fragmentsFor v ms) (js_get (Map_get (fleet st) v) k))"
proof (intro conjI impI)
  assume "g \<in> set [''engine'', ''power'', ''navigation'', ''location'', ''safety'', ''systems'']"
  then have "g \<in> set groups"
    by (simp only: groups_def)
  then show "js_get (js_get (Map_get (fleet (applyAll P ms st)) v) g) k =
              fold (\<lambda>f old. if has_own (js_get f g) k then js_get (js_get f g) k else old)
                (fragmentsFor v ms) (js_get (js_get (Map_get (fleet st) v) g) k)"
    by (rule group_field_applyAll)
next
  assume "k \<notin> set [''engine'', ''power'', ''navigation'', ''location'', ''safety'', ''systems'',
                    ''lastSeen'', ''status'', ''operationalState'']"
  then have "k \<notin> set groups" "k \<noteq> ''operationalState''" "k \<noteq> ''status''" "k \<noteq> ''lastSeen''"
    by (simp_all add: groups_def)
  then show "js_get (Map_get (fleet (applyAll P ms st)) v) k =
              fold (\<lambda>f old. if has_own f k then js_get f k else old)
                (fragmentsFor v ms) (js_get (Map_get (fleet st) v) k)"
    by (rule top_field_applyAll)
qed

text \<open>
  Vessel v1 sends 1200 rpm, then an engine temperature of 80, then a battery charge of
  10, with a fragment of vessel v2 in between: the record of v1 holds all three readings
  and its id. Then a fragment arrives late, stamped an hour earlier, with 900 rpm: the
  record holds 900 rpm, still the temperature of 80, and the late fragment's timestamp.
\<close>

theorem C1_field_level_last_writer_wins_witness:
  "(let vessel = Map_get (fleet (applyAll examplePlatform
                   [(noon, rpmFragment), (noon + 1000, warmFragment), (noon + 2000, otherFragment),
                    (noon + 3000, lowBattery 10)] emptyState)) (JStr ''v1'')
    in js_get (js_get vessel ''engine'') ''rpm'' = JNum 1200 \<and>
       js_get (js_get vessel ''engine'') ''temperature'' = JNum 80 \<and>
       js_get (js_get vessel ''power'') ''batterySOC'' = JNum 10 \<and>
       js_get vessel ''vesselId'' = JStr ''v1'') \<and>
   (let vessel = Map_get (fleet (applyAll examplePlatform
                   [(noon, rpmFragment), (noon + 1000, warmFragment), (noon + 2000, otherFragment),
                    (noon + 3000, lowBattery 10), (noon + 4000, staleFragment)] emptyState)) (JStr ''v1'')
    in js_get (js_get vessel ''engine'') ''rpm'' = JNum 900 \<and>
       js_get (js_get vessel ''engine'') ''temperature'' = JNum 80 \<and>
       js_get vessel ''timestamp'' = JStr ''2025-01-25T11:00:00.000Z'')"
proof -
  let ?ms = "[(noon, rpmFragment), (noon + 1000, warmFragment), (noon + 2000, otherFragment),
              (noon + 3000, lowBattery 10)]"
  let ?ms' = "[(noon, rpmFragment), (noon + 1000, warmFragment), (noon + 2000, otherFragment),
               (noon + 3000, lowBattery 10), (noon + 4000, staleFragment)]"
  let ?v = "Map_get (fleet (applyAll examplePlatform ?ms emptyState)) (JStr ''v1'')"
  let ?v' = "Map_get (fleet (applyAll examplePlatform ?ms' emptyState)) (JStr ''v1'')"
  note d = rpmFragment_def warmFragment_def otherFragment_def lowBattery_def staleFragment_def
  have fs: "fragmentsFor (JStr ''v1'') ?ms = [rpmFragment, warmFragment, lowBattery 10]"
    "fragmentsFor (JStr ''v1'') ?ms' = [rpmFragment, warmFragment, lowBattery 10, staleFragment]"
    by (simp_all add: fragmentsFor_def d js_get_JObj)
  have e: "Map_get (fleet emptyState) (JStr ''v1'') = JUndefined"
    by (simp add: emptyState_def Map_get_def)
  have p: "\<not> isObject (JStr ''v1'')"
    by simp
  note t = C1_field_level_last_writer_wins [OF p, where P = examplePlatform and st = emptyState]
  have "js_get (js_get ?v ''engine'') ''rpm'' =
          fold (\<lambda>f old. if has_own (js_get f ''engine'') ''rpm'' then js_get (js_get f ''engine'') ''rpm'' else old)
            [rpmFragment, warmFragment, lowBattery 10] JUndefined"
    using t [where g = "''engine''" and k = "''rpm''" and ms = ?ms] by (simp add: fs e)
  then have 1: "js_get (js_get ?v ''engine'') ''rpm'' = JNum 1200"
    by (simp add: d look)
  have "js_get (js_get ?v ''engine'') ''temperature'' =
          fold (\<lambda>f old. if has_own (js_get f ''engine'') ''temperature'' then js_get (js_get f ''engine'') ''temperature'' else old)
            [rpmFragment, warmFragment, lowBattery 10] JUndefined"
    using t [where g = "''engine''" and k = "''temperature''" and ms = ?ms] by (simp add: fs e)
  then have 2: "js_get (js_get ?v ''engine'') ''temperature'' = JNum 80"
    by (simp add: d look)
  have "js_get (js_get ?v ''power'') ''batterySOC'' =
          fold (\<lambda>f old. if has_own (js_get f ''power'') ''batterySOC'' then js_get (js_get f ''power'') ''batterySOC'' else old)
            [rpmFragment, warmFragment, lowBattery 10] JUndefined"
    using t [where g = "''power''" and k = "''batterySOC''" and ms = ?ms] by (simp add: fs e)
  then have 3: "js_get (js_get ?v ''power'') ''batterySOC'' = JNum 10"
    by (simp add: d look)
  have "js_get ?v ''vesselId'' =
          fold (\<lambda>f old. if has_own f ''vesselId'' then js_get f ''vesselId'' else old)
            [rpmFragment, warmFragment, lowBattery 10] JUndefined"
    using t [where k = "''vesselId''" and ms = ?ms] by (simp add: fs e)
  then have 4: "js_get ?v ''vesselId'' = JStr ''v1''"
    by (simp add: d look)
  have "js_get (js_get ?v' ''engine'') ''rpm'' =
          fold (\<lambda>f old. if has_own (js_get f ''engine'') ''rpm'' then js_get (js_get f ''engine'') ''rpm'' else old)
            [rpmFragment, warmFragment, lowBattery 10, staleFragment] JUndefined"
    using t [where g = "''engine''" and k = "''rpm''" and ms = ?ms'] by (simp add: fs e)
  then have 5: "js_get (js_get ?v' ''engine'') ''rpm'' = JNum 900"
    by (simp add: d look)
  have "js_get (js_get ?v' ''engine'') ''temperature'' =
          fold (\<lambda>f old. if has_own (js_get f ''engine'') ''temperature'' then js_get (js_get f ''engine'') ''temperature'' else old)
            [rpmFragment, warmFragment, lowBattery 10, staleFragment] JUndefined"
    using t [where g = "''engine''" and k = "''temperature''" and ms = ?ms'] by (simp add: fs e)
  then have 6: "js_get (js_get ?v' ''engine'') ''temperature'' = JNum 80"
    by (simp add: d look)
  have "js_get ?v' ''timestamp'' =
          fold (\<lambda>f old. if has_own f ''timestamp'' then js_get f ''timestamp'' else old)
            [rpmFragment, warmFragment, lowBattery 10, staleFragment] JUndefined"
    using t [where k = "''timestamp''" and ms = ?ms'] by (simp add: fs e)
  then have 7: "js_get ?v' ''timestamp'' = JStr ''2025-01-25T11:00:00.000Z''"
    by (simp add: d look)
  from 1 2 3 4 5 6 7 show ?thesis
    by (simp add: Let_def)
qed

text \<open>
  C1, as claimed, fails for the three fields that every update assigns. A fragment that
  carries \<open>status\<close>, \<open>lastSeen\<close> and \<open>operationalState\<close> is stored with none of its
  three values: the status is \<open>normal\<close>, \<open>lastSeen\<close> is the time of arrival and the
  state is \<open>offline\<close>. And a fragment that omits them does not keep them: after a fire
  alarm at noon, a fragment with nothing but the vessel id, one second later, turns the
  status from \<open>emergency\<close> to \<open>normal\<close> and moves \<open>lastSeen\<close> to its own arrival.
\<close>

theorem C1_derived_fields_not_merged:
  "(let vessel = Map_get (fleet (applyAll examplePlatform [(noon, labelledFragment)] emptyState)) (JStr ''v1'')
    in js_get labelledFragment ''status'' = JStr ''maintenance'' \<and>
       js_get vessel ''status'' = JStr ''normal'' \<and>
       js_get labelledFragment ''lastSeen'' = JStr ''2025-01-25T11:00:00.000Z'' \<and>
       js_get vessel ''lastSeen'' = JStr ''2025-01-25T12:00:00.000Z'' \<and>
       js_get labelledFragment ''operationalState'' = JStr ''moored'' \<and>
       js_get vessel ''operationalState'' = JStr ''offline'') \<and>
   (let before = Map_get (fleet (applyAll examplePlatform [(noon, fireFragment)] emptyState)) (JStr ''v1'');
        after = Map_get (fleet (applyAll examplePlatform [(noon, fireFragment), (noon + 1000, bareFragment)]
                                  emptyState)) (JStr ''v1'')
    in \<not> has_own bareFragment ''status'' \<and>
       js_get before ''status'' = JStr ''emergency'' \<and>
       js_get after ''status'' = JStr ''normal'' \<and>
       \<not> has_own bareFragment ''lastSeen'' \<and>
       js_get before ''lastSeen'' = JStr ''2025-01-25T12:00:00.000Z'' \<and>
       js_get after ''lastSeen'' = JStr ''2025-01-25T12:00:01.000Z'')"
proof -
  have v: "js_get labelledFragment ''vesselId'' = JStr ''v1''" "js_get fireFragment ''vesselId'' = JStr ''v1''"
    "js_get bareFragment ''vesselId'' = JStr ''v1''"
    by (simp_all add: labelledFragment_def fireFragment_def bareFragment_def js_get_JObj)
  have n: "labelledFragment \<noteq> JUndefined" "labelledFragment \<noteq> JNull"
    "fireFragment \<noteq> JUndefined" "fireFragment \<noteq> JNull"
    "bareFragment \<noteq> JUndefined" "bareFragment \<noteq> JNull"
    by (simp_all add: labelledFragment_def fireFragment_def bareFragment_def)
  have e: "Map_get (fleet emptyState) (JStr ''v1'') = JUndefined"
    by (simp add: emptyState_def Map_get_def)
  have ng: "''status'' \<notin> set groups" "''lastSeen'' \<notin> set groups" "''operationalState'' \<notin> set groups"
    "''operational'' \<notin> set groups" "''lastTelemetry'' \<notin> set groups"
    by (simp_all add: groups_def)
  have f: "js_get labelledFragment ''status'' = JStr ''maintenance''"
    "js_get labelledFragment ''lastSeen'' = JStr ''2025-01-25T11:00:00.000Z''"
    "js_get labelledFragment ''operationalState'' = JStr ''moored''"
    "\<not> has_own bareFragment ''status''" "\<not> has_own bareFragment ''lastSeen''"
    by (simp_all add: labelledFragment_def bareFragment_def look)
  have s: "determineVesselStatus examplePlatform labelledFragment = ''normal''"
    "determineVesselStatus examplePlatform fireFragment = ''emergency''"
    "determineVesselStatus examplePlatform bareFragment = ''normal''"
    by (simp_all add: determineVesselStatus_def labelledFragment_def fireFragment_def bareFragment_def
          look js_gt_def js_lt_def)
  have o: "getOperationalState examplePlatform noon
             (JObj (shallowMerge examplePlatform noon (js_or JUndefined (JObj [])) labelledFragment)) = JStr ''offline''"
    apply (simp only: getOperationalState_def js_get_shallowMerge)
    apply (simp add: js_or_def labelledFragment_def look js_gt_def)
    done
  show ?thesis
    by (simp add: applyAll_def vessel_onFragment v n e Let_def js_get_mergeVessel ng f s o iso_noon iso_noon1)
qed

section \<open>Operational state\<close>

lemma updateVesselData_onFragment:
  "updateVesselData P now f st = Inr st' \<Longrightarrow> f \<noteq> JUndefined \<and> f \<noteq> JNull \<and> st' = onFragment P (now, f) st"
  by (auto simp: onFragment_def updateVesselData_def split: if_splits)

lemma has_own_truthy: "has_own v k \<Longrightarrow> truthy v"
  using has_own_falsy by blast

text \<open>
  The record that \<open>getOperationalState\<close> is given holds the groups of the fragment
  whole where the fragment has them. For a fragment whose engine group (if any) carries
  the rpm and whose location (if any) is truthy, the rules read the same from it as from
  the record that is stored.
\<close>

lemma operational_state_of_stored:
  assumes e: "\<not> has_own f ''engine'' \<or> has_own (js_get f ''engine'') ''rpm''"
    and l: "\<not> has_own f ''location'' \<or> truthy (js_get f ''location'')"
  shows "getOperationalState P now (JObj (shallowMerge P now ex f)) =
         getOperationalState P now (mergeVessel P now ex f)"
proof -
  let ?s = "JObj (shallowMerge P now ex f)" and ?m = "mergeVessel P now ex f"
  have g: "''engine'' \<in> set groups" "''location'' \<in> set groups"
    "''operational'' \<notin> set groups" "''lastTelemetry'' \<notin> set groups"
    by (simp_all add: groups_def)
  have op: "js_get ?s ''operational'' = js_get ?m ''operational''"
    using g by (simp add: js_get_shallowMerge js_get_mergeVessel)
  have lt: "js_get ?s ''lastTelemetry'' = js_get ?m ''lastTelemetry''"
    using g by (simp add: js_get_shallowMerge js_get_mergeVessel)
  have rpm: "js_get (js_get ?s ''engine'') ''rpm'' = js_get (js_get ?m ''engine'') ''rpm''"
  proof (cases "has_own f ''engine''")
    case True
    with e have "has_own (js_get f ''engine'') ''rpm''" by simp
    with True show ?thesis
      by (simp add: merged_group_field [OF g(1)] js_get_shallowMerge)
  next
    case False
    then have "js_get f ''engine'' = JUndefined" by (rule js_get_not_own)
    with False show ?thesis
      by (simp add: merged_group_field [OF g(1)] js_get_shallowMerge)
  qed
  have loc: "truthy (js_get ?s ''location'') = truthy (js_get ?m ''location'')"
  proof (cases "has_own f ''location''")
    case True
    with l have "truthy (js_get f ''location'')" by simp
    with True g show ?thesis
      by (simp add: js_get_shallowMerge js_get_mergeVessel)
  next
    case False
    then have "js_get f ''location'' = JUndefined" by (rule js_get_not_own)
    with False g show ?thesis
      by (simp add: js_get_shallowMerge js_get_mergeVessel)
  qed
  show ?thesis
    by (simp add: getOperationalState_def op lt rpm loc)
qed

text \<open>
  C5, as amended. Let a fragment be applied whose engine group, if it has one, carries
  \<open>rpm\<close>, and whose \<open>location\<close>, if it has the key, is truthy. Then the stored
  \<open>operationalState\<close> is the first match of these rules over the stored, fully merged
  record: a truthy \<open>operational\<close> field, verbatim; else \<open>engine.rpm > 0\<close>, underway;
  else a truthy \<open>location\<close>, docked; else a truthy \<open>lastTelemetry\<close> less than five
  minutes before now, docked; else offline. The fourth rule reads \<open>lastTelemetry\<close>, a
  field that only a fragment or the start-up record sets, not \<open>lastSeen\<close>.
\<close>

theorem C5_operational_state_priority:
  assumes "updateVesselData P now f st = Inr st'"
    and "\<not> has_own f ''engine'' \<or> has_own (js_get f ''engine'') ''rpm''"
    and "\<not> has_own f ''location'' \<or> truthy (js_get f ''location'')"
  shows "let vessel = Map_get (fleet st') (js_get f ''vesselId'')
         in js_get vessel ''operationalState'' =
              (if truthy (js_get vessel ''operational'') then js_get vessel ''operational''
               else if js_gt P (js_get (js_get vessel ''engine'') ''rpm'') 0 then JStr ''underway''
               else if truthy (js_get vessel ''location'') then JStr ''docked''
               else if truthy (js_get vessel ''lastTelemetry'') \<and>
                       (case DateValue P (js_get vessel ''lastTelemetry'') of
                          None \<Rightarrow> False
                        | Some lastUpdate \<Rightarrow> now - lastUpdate < 300000)
                    then JStr ''docked''
               else JStr ''offline'')"
proof -
  from assms(1) have f: "f \<noteq> JUndefined" "f \<noteq> JNull" and st': "st' = onFragment P (now, f) st"
    using updateVesselData_onFragment by blast+
  let ?ex = "js_or (Map_get (fleet st) (js_get f ''vesselId'')) (JObj [])"
  have v: "Map_get (fleet st') (js_get f ''vesselId'') = mergeVessel P now ?ex f"
    using f by (simp add: st' vessel_onFragment)
  have "''operationalState'' \<notin> set groups"
    by (simp add: groups_def)
  then have "js_get (mergeVessel P now ?ex f) ''operationalState'' =
          getOperationalState P now (JObj (shallowMerge P now ?ex f))"
    by (simp add: js_get_mergeVessel)
  also have "\<dots> = getOperationalState P now (mergeVessel P now ?ex f)"
    using assms(2,3) by (rule operational_state_of_stored)
  finally show ?thesis
    by (simp add: v getOperationalState_def Let_def)
qed

lemmas run = mergeVessel_def shallowMerge_def mergeGroup_def groups_def assign_def own_props_def
  js_get_def has_own_def js_or_def js_gt_def js_lt_def getOperationalState_def determineVesselStatus_def
  Map_get_def AList.delete_eq Let_def

text \<open>
  An explicit \<open>operational\<close> wins over 1200 rpm; 1200 rpm alone gives underway; a location
  alone gives docked.
\<close>

theorem C5_operational_state_priority_witness:
  "(let vessel = Map_get (fleet (onFragment examplePlatform (noon, maintenanceFragment) emptyState)) (JStr ''v1'')
    in js_get vessel ''operationalState'' = JStr ''maintenance'') \<and>
   (let vessel = Map_get (fleet (onFragment examplePlatform (noon, rpmFragment) emptyState)) (JStr ''v1'')
    in js_get vessel ''operationalState'' = JStr ''underway'') \<and>
   (let vessel = Map_get (fleet (onFragment examplePlatform (noon, locatedFragment) emptyState)) (JStr ''v1'')
    in js_get vessel ''operationalState'' = JStr ''docked'')"
proof -
  have u: "updateVesselData examplePlatform noon f emptyState = Inr (onFragment examplePlatform (noon, f) emptyState)"
    if "f \<noteq> JUndefined" "f \<noteq> JNull" for f
    using that by (simp add: onFragment_def updateVesselData_def Let_def)
  have e: "fleet emptyState = []"
    by (simp add: emptyState_def)
  have v: "js_get maintenanceFragment ''vesselId'' = JStr ''v1''" "js_get rpmFragment ''vesselId'' = JStr ''v1''"
    "js_get locatedFragment ''vesselId'' = JStr ''v1''"
    by (simp_all add: maintenanceFragment_def rpmFragment_def locatedFragment_def js_get_JObj)
  have n: "maintenanceFragment \<noteq> JUndefined" "maintenanceFragment \<noteq> JNull"
    "rpmFragment \<noteq> JUndefined" "rpmFragment \<noteq> JNull"
    "locatedFragment \<noteq> JUndefined" "locatedFragment \<noteq> JNull"
    by (simp_all add: maintenanceFragment_def rpmFragment_def locatedFragment_def)
  have 1: "js_get (Map_get (fleet (onFragment examplePlatform (noon, maintenanceFragment) emptyState)) (JStr ''v1''))
             ''operationalState'' = JStr ''maintenance''"
    using C5_operational_state_priority [OF u [OF n(1,2)]]
    apply (simp only: v vessel_onFragment n e)
    apply (simp add: maintenanceFragment_def run)
    done
  have 2: "js_get (Map_get (fleet (onFragment examplePlatform (noon, rpmFragment) emptyState)) (JStr ''v1''))
             ''operationalState'' = JStr ''underway''"
    using C5_operational_state_priority [OF u [OF n(3,4)]]
    apply (simp only: v vessel_onFragment n e)
    apply (simp add: rpmFragment_def run)
    done
  have 3: "js_get (Map_get (fleet (onFragment examplePlatform (noon, locatedFragment) emptyState)) (JStr ''v1''))
             ''operationalState'' = JStr ''docked''"
    using C5_operational_state_priority [OF u [OF n(5,6)]]
    apply (simp only: v vessel_onFragment n e)
    apply (simp add: locatedFragment_def run)
    done
  from 1 2 3 show ?thesis by (simp add: Let_def)
qed

text \<open>
  C5, as claimed, fails. A first fragment with nothing but the vessel id is stored with
  \<open>lastSeen\<close> equal to now, and the state is offline. And the rules are evaluated
  before the groups are merged: after 1200 rpm, a fragment with only the engine
  temperature leaves 1200 rpm in the stored record and the state offline.
\<close>

theorem C5_lastSeen_not_consulted:
  "(let vessel = Map_get (fleet (applyAll examplePlatform [(noon, bareFragment)] emptyState)) (JStr ''v1'')
    in js_get vessel ''lastSeen'' = JStr ''2025-01-25T12:00:00.000Z'' \<and>
       js_get vessel ''operationalState'' = JStr ''offline'') \<and>
   (let vessel = Map_get (fleet (applyAll examplePlatform [(noon, rpmFragment), (noon + 1000, warmFragment)]
                                   emptyState)) (JStr ''v1'')
    in js_get (js_get vessel ''engine'') ''rpm'' = JNum 1200 \<and>
       js_get vessel ''operationalState'' = JStr ''offline'')"
proof -
  have v: "js_get bareFragment ''vesselId'' = JStr ''v1''" "js_get rpmFragment ''vesselId'' = JStr ''v1''"
    "js_get warmFragment ''vesselId'' = JStr ''v1''"
    by (simp_all add: bareFragment_def rpmFragment_def warmFragment_def js_get_JObj)
  have n: "bareFragment \<noteq> JUndefined" "bareFragment \<noteq> JNull"
    "rpmFragment \<noteq> JUndefined" "rpmFragment \<noteq> JNull"
    "warmFragment \<noteq> JUndefined" "warmFragment \<noteq> JNull"
    by (simp_all add: bareFragment_def rpmFragment_def warmFragment_def)
  have e: "fleet emptyState = []"
    by (simp add: emptyState_def)
  show ?thesis
    apply (simp add: applyAll_def vessel_onFragment v n e)
    apply (simp add: bareFragment_def rpmFragment_def warmFragment_def run iso_noon)
    done
qed

section \<open>Aggregation\<close>

lemma fold_insertAggregate:
  "telemetry (fold (insertAggregate now) bs db) = telemetry db \<and>
   map bucket_of (telemetry_aggregates (fold (insertAggregate now) bs db)) =
     map bucket_of (telemetry_aggregates db) @ bs"
proof (induction bs arbitrary: db)
  case Nil
  show ?case by simp
next
  case (Cons b bs)
  have "telemetry (insertAggregate now b db) = telemetry db"
    and "map bucket_of (telemetry_aggregates (insertAggregate now b db)) =
           map bucket_of (telemetry_aggregates db) @ [b]"
    by (simp_all add: insertAggregate_def bucket_of_def split: prod.splits)
  with Cons.IH [of "insertAggregate now b db"] show ?case by simp
qed

lemma aggregateData_appends:
  assumes "aggregateData it now db = Inr db'" "intervalMs it = Some ms"
  shows "telemetry db' = telemetry db"
    and "map bucket_of (telemetry_aggregates db') =
           map bucket_of (telemetry_aggregates db) @ newBuckets it ms now (telemetry db)"
  using assms fold_insertAggregate [of now "newBuckets it ms now (telemetry db)" db]
  by (auto simp: aggregateData_def)

lemma newBuckets_same_window:
  assumes "startTime ms now1 = startTime ms now2"
  shows "newBuckets it ms now1 rows = newBuckets it ms now2 rows"
proof -
  have w: "inWindow ms now1 = inWindow ms now2"
    using assms by (simp add: inWindow_def fun_eq_iff)
  have "metricBucket it ms now1 rows v m = metricBucket it ms now2 rows v m" for v m
    unfolding metricBucket_def w assms by (rule refl)
  then have b: "metricBucket it ms now1 rows v = metricBucket it ms now2 rows v" for v
    by (rule ext)
  show ?thesis
    by (simp add: newBuckets_def windowVessels_def w b)
qed

lemma metricBucket_key:
  "map bucket_key (metricBucket it ms now rows v m) = (if metricBucket it ms now rows v m = [] then [] else [(v, m)])"
  by (simp add: metricBucket_def bucket_key_def Let_def split: option.splits)

lemma keys_of_vessel:
  "map bucket_key (concat (map (metricBucket it ms now rows v) ms')) =
     map (Pair v) (filter (\<lambda>m. metricBucket it ms now rows v m \<noteq> []) ms')"
  by (induction ms') (simp_all add: metricBucket_key)

lemma distinct_vessel_keys:
  assumes "distinct vs" "\<And>v. distinct (f v)"
  shows "distinct (concat (map (\<lambda>v. map (Pair v) (f v)) vs))"
  using assms(1)
proof (induction vs)
  case Nil
  show ?case by simp
next
  case (Cons v vs)
  have "set (map (Pair v) (f v)) \<inter> set (concat (map (\<lambda>v. map (Pair v) (f v)) vs)) = {}"
    using Cons.prems by auto
  moreover have "distinct (map (Pair v) (f v))"
    using assms(2) by (simp add: distinct_map inj_on_def)
  ultimately show ?case
    using Cons by simp
qed

lemma distinct_bucket_keys: "distinct (map bucket_key (newBuckets it ms now rows))"
proof -
  have m: "distinct metrics"
    by (simp add: metrics_def)
  have v: "distinct (windowVessels ms now rows)"
    by (simp add: windowVessels_def)
  have "map bucket_key (newBuckets it ms now rows) =
          concat (map (\<lambda>v. map bucket_key (concat (map (metricBucket it ms now rows v) metrics)))
                    (windowVessels ms now rows))"
    by (simp only: newBuckets_def map_concat map_map comp_def)
  then have "map bucket_key (newBuckets it ms now rows) =
          concat (map (\<lambda>v. map (Pair v) (filter (\<lambda>m. metricBucket it ms now rows v m \<noteq> []) metrics))
                    (windowVessels ms now rows))"
    by (simp only: keys_of_vessel)
  then show ?thesis
    using distinct_vessel_keys [OF v, of "\<lambda>v. filter (\<lambda>m. metricBucket it ms now rows v m \<noteq> []) metrics"] m
    by simp
qed

text \<open>
  C2, as amended. Aggregation appends; it never overwrites. Two runs for the same
  interval type whose clocks fall into the same window, with the raw samples unchanged
  between them, each append the same buckets: one per vessel and metric with a sample
  that is not \<open>NULL\<close> in the window, with the same window start, minimum, maximum,
  average and count. After the second run every such bucket is in the table twice more
  than before the first.
\<close>

theorem C2_reaggregation_appends_again:
  assumes "aggregateData intervalType now1 db = Inr db1"
    and "aggregateData intervalType now2 db1 = Inr db2"
    and "intervalMs intervalType = Some ms"
    and "startTime ms now1 = startTime ms now2"
  shows "map bucket_of (telemetry_aggregates db1) =
           map bucket_of (telemetry_aggregates db) @ newBuckets intervalType ms now1 (telemetry db) \<and>
         map bucket_of (telemetry_aggregates db2) =
           map bucket_of (telemetry_aggregates db) @ newBuckets intervalType ms now1 (telemetry db)
             @ newBuckets intervalType ms now1 (telemetry db) \<and>
         distinct (map bucket_key (newBuckets intervalType ms now1 (telemetry db)))"
proof -
  note a1 = aggregateData_appends [OF assms(1,3)]
  note a2 = aggregateData_appends [OF assms(2,3)]
  have "newBuckets intervalType ms now2 (telemetry db1) = newBuckets intervalType ms now1 (telemetry db)"
    using newBuckets_same_window [OF assms(4)] a1(1) by simp
  then show ?thesis
    using a1(2) a2(2) by (simp add: distinct_bucket_keys)
qed

lemmas agg = aggregateData_def intervalMs_def newBuckets_def windowVessels_def inWindow_def startTime_def
  metricBucket_def column_def metrics_def nonNull_def List.map_filter_simps sql_min_def sql_max_def
  sql_avg_def insertAggregate_def bucket_of_def sampleDatabase_def sampleRow_def emptyDatabase_def noon_def
  Let_def

lemma sample_buckets:
  "newBuckets ''5min'' 300000 (noon + 60000) [sampleRow] =
     [(''v1'', noon - 300000, ''5min'', ''engine_rpm'', Some 1200, Some 1200, Some 1200, 1)]"
  by (simp add: agg)

text \<open>
  One sample of 1200 rpm at 11:58; the five-minute aggregation runs at 12:01:00 and at
  12:01:01, both for the window from 11:55: the bucket is in the table twice.
\<close>

theorem C2_reaggregation_appends_again_witness:
  "map_sum id (\<lambda>db1. map_sum id (\<lambda>db2. map bucket_of (telemetry_aggregates db2))
                        (aggregateData ''5min'' (noon + 61000) db1))
     (aggregateData ''5min'' (noon + 60000) sampleDatabase) =
   Inr (Inr [(''v1'', noon - 300000, ''5min'', ''engine_rpm'', Some 1200, Some 1200, Some 1200, 1),
             (''v1'', noon - 300000, ''5min'', ''engine_rpm'', Some 1200, Some 1200, Some 1200, 1)])"
proof -
  let ?db1 = "fold (insertAggregate (noon + 60000)) (newBuckets ''5min'' 300000 (noon + 60000) (telemetry sampleDatabase)) sampleDatabase"
  let ?db2 = "fold (insertAggregate (noon + 61000)) (newBuckets ''5min'' 300000 (noon + 61000) (telemetry ?db1)) ?db1"
  have i: "intervalMs ''5min'' = Some 300000"
    by (simp add: intervalMs_def)
  have 1: "aggregateData ''5min'' (noon + 60000) sampleDatabase = Inr ?db1"
    by (simp add: aggregateData_def i)
  have 2: "aggregateData ''5min'' (noon + 61000) ?db1 = Inr ?db2"
    by (simp add: aggregateData_def i)
  have w: "startTime 300000 (noon + 60000) = startTime 300000 (noon + 61000)"
    by (simp add: startTime_def noon_def)
  have t: "telemetry sampleDatabase = [sampleRow]" "telemetry_aggregates sampleDatabase = []"
    by (simp_all add: sampleDatabase_def emptyDatabase_def)
  from C2_reaggregation_appends_again [OF 1 2 i w]
  have "map bucket_of (telemetry_aggregates ?db2) =
          [(''v1'', noon - 300000, ''5min'', ''engine_rpm'', Some 1200, Some 1200, Some 1200, 1),
           (''v1'', noon - 300000, ''5min'', ''engine_rpm'', Some 1200, Some 1200, Some 1200, 1)]"
    by (simp only: t sample_buckets) simp
  then show ?thesis
    by (simp only: 1 2 map_sum.simps id_apply)
qed

text \<open>
  C2, as claimed, fails: run twice at the same instant over the one sample, the
  aggregation leaves two rows for the vessel, the metric, the interval and the window
  start, not one.
\<close>

theorem C2_second_run_duplicates:
  "map_sum id (\<lambda>db1. map_sum id
       (\<lambda>db2. length (filter (\<lambda>a. agg_vessel_id a = ''v1'' \<and> metric_name a = ''engine_rpm'' \<and>
                                   interval_type a = ''5min'' \<and> agg_timestamp a = noon - 300000)
                          (telemetry_aggregates db2)))
       (aggregateData ''5min'' (noon + 60000) db1))
     (aggregateData ''5min'' (noon + 60000) sampleDatabase) = Inr (Inr 2)"
  by (simp add: agg)

section \<open>CSV export\<close>

lemma join_lines: "rs \<noteq> [] \<Longrightarrow> join sep (h # rs) = h @ sep @ join sep rs"
  by (cases rs) simp_all

lemma hoursAgo_export:
  "(timeRange, h) \<in> set [(''1h'', 1), (''12h'', 12), (''24h'', 24)] \<Longrightarrow>
     hoursAgo [(''1h'', 1), (''12h'', 12), (''24h'', 24)] timeRange = h"
  by (auto simp: hoursAgo_def)

text \<open>
  C8, as amended. For a range of 1h, 12h or 24h, let the samples be the raw rows of the
  vessel later than that many hours before now. With no sample the export is the empty
  string, without a header. Otherwise it is the header line, whose 17 fields are the
  columns of the table, followed by one line of 17 fields for each sample, newest first,
  a \<open>NULL\<close> being an empty field.
\<close>

theorem C8_export_header_and_rows:
  assumes "(timeRange, h) \<in> set [(''1h'', 1), (''12h'', 12), (''24h'', 24)]"
  shows "let samples = filter (\<lambda>r. vessel_id r = vesselId \<and> now - h * 3600000 < timestamp r) (telemetry db);
             rows = sort_key (\<lambda>r. - timestamp r) samples
         in exportToCSV P vesselId timeRange now db =
              (if samples = [] then []
               else join [CHR 0x0A] (join '','' telemetryColumns # map (\<lambda>r. join '','' (csvValues P r)) rows)) \<and>
            length rows = length samples \<and>
            length telemetryColumns = 17 \<and>
            list_all (\<lambda>r. length (csvValues P r) = length telemetryColumns) rows \<and>
            csvNumber P None = []"
proof -
  let ?samples = "filter (\<lambda>r. vessel_id r = vesselId \<and> now - h * 3600000 < timestamp r) (telemetry db)"
  let ?rows = "sort_key (\<lambda>r. - timestamp r) ?samples"
  have r: "exportRows [(''1h'', 1), (''12h'', 12), (''24h'', 24)] vesselId timeRange now db = ?rows"
    by (simp add: exportRows_def hoursAgo_export [OF assms] mult.assoc)
  have l: "length ?rows = length ?samples"
    by simp
  then have e: "(?rows = []) = (?samples = [])"
    by (simp only: length_0_conv [symmetric])
  show ?thesis
    unfolding Let_def
  proof (intro conjI)
    show "exportToCSV P vesselId timeRange now db =
          (if ?samples = [] then []
           else join [CHR 0x0A] (join '','' telemetryColumns # map (\<lambda>r. join '','' (csvValues P r)) ?rows))"
    proof (cases "?samples = []")
      case True
      then show ?thesis
        unfolding exportToCSV_def r Let_def e by simp
    next
      case False
      then have "map (\<lambda>r. join '','' (csvValues P r)) ?rows \<noteq> []"
        using e by simp
      then have "join [CHR 0x0A] (join '','' telemetryColumns # map (\<lambda>r. join '','' (csvValues P r)) ?rows) =
                   join '','' telemetryColumns @ [CHR 0x0A] @ join [CHR 0x0A] (map (\<lambda>r. join '','' (csvValues P r)) ?rows)"
        by (rule join_lines)
      with False show ?thesis
        unfolding exportToCSV_def r Let_def e by simp
    qed
    show "length ?rows = length ?samples"
      by (rule l)
    show "length telemetryColumns = 17"
      by (simp add: telemetryColumns_def)
    show "list_all (\<lambda>r. length (csvValues P r) = length telemetryColumns) ?rows"
      by (simp add: list_all_iff csvValues_def telemetryColumns_def)
    show "csvNumber P None = []"
      by (simp add: csvNumber_def)
  qed
qed
lemma sample_line:
  "join '','' (csvValues examplePlatform sampleRow) =
     ''1,v1,2025-01-25T11:58:00.000Z,1200,,,,,,,,,,,,,2025-01-25 11:58:00''"
  unfolding sampleRow_def noon_def by code_simp

lemma header_line:
  "join '','' telemetryColumns =
     ''id,vessel_id,timestamp,engine_rpm,engine_temp,fuel_flow,battery_soc,voltage,generator_load,speed,heading,latitude,longitude,bilge_level,co2_level,operational_state,created_at''"
  by (simp add: telemetryColumns_def)

text \<open>The export of the last hour at noon over the one sample of 11:58.\<close>

theorem C8_export_header_and_rows_witness:
  "exportToCSV examplePlatform ''v1'' ''1h'' noon sampleDatabase =
     ''id,vessel_id,timestamp,engine_rpm,engine_temp,fuel_flow,battery_soc,voltage,generator_load,speed,heading,latitude,longitude,bilge_level,co2_level,operational_state,created_at''
     @ [CHR 0x0A] @ ''1,v1,2025-01-25T11:58:00.000Z,1200,,,,,,,,,,,,,2025-01-25 11:58:00''"
proof -
  have s: "filter (\<lambda>r. vessel_id r = ''v1'' \<and> noon - 1 * 3600000 < timestamp r) (telemetry sampleDatabase) = [sampleRow]"
    by (simp add: sampleDatabase_def emptyDatabase_def sampleRow_def)
  have "exportToCSV examplePlatform ''v1'' ''1h'' noon sampleDatabase =
          join [CHR 0x0A] [join '','' telemetryColumns, join '','' (csvValues examplePlatform sampleRow)]"
    using C8_export_header_and_rows [of "''1h''" 1 "''v1''" noon sampleDatabase examplePlatform]
    by (simp only: s Let_def) simp
  then show ?thesis
    by (simp add: sample_line header_line)
qed

text \<open>
  C8, as claimed, fails. Over no rows the export is empty: there is no header line.
  And the table of \<open>exportToCSV\<close> has no entry for 6h, so that range falls back to 24
  hours: a sample seven hours old, outside the last six hours, is exported.
\<close>

theorem C8_no_header_and_six_hours:
  "exportToCSV examplePlatform ''v1'' ''1h'' noon emptyDatabase = [] \<and>
   filter (\<lambda>r. vessel_id r = ''v1'' \<and> noon - 6 * 3600000 < timestamp r) (telemetry oldDatabase) = [] \<and>
   exportToCSV examplePlatform ''v1'' ''6h'' noon oldDatabase =
     join '','' telemetryColumns @ [CHR 0x0A] @
     join '','' (csvValues examplePlatform (sampleRow\<lparr>timestamp := noon - 7 * 3600000\<rparr>))"
  by (simp add: exportToCSV_def exportRows_def hoursAgo_def emptyDatabase_def oldDatabase_def
        sampleRow_def noon_def Let_def)

section \<open>Readings of zero\<close>

lemma nonNull_append_null:
  "col r = None \<Longrightarrow> nonNull col (filter Q (rows @ [r])) = nonNull col (filter Q rows)"
  by (cases "Q r") (simp_all add: nonNull_def List.map_filter_def)

lemma metricBucket_append_null:
  assumes "column m = Some col" "col r = None"
  shows "metricBucket it ms t (rows @ [r]) v m = metricBucket it ms t rows v m"
proof -
  have e: "nonNull col (filter (\<lambda>r. vessel_id r = v \<and> inWindow ms t r) (rows @ [r])) =
           nonNull col (filter (\<lambda>r. vessel_id r = v \<and> inWindow ms t r) rows)"
    by (rule nonNull_append_null [of col r, OF assms(2)])
  show ?thesis
    by (simp only: metricBucket_def assms(1) option.case e)
qed

lemma metricBucket_metric:
  "filter (\<lambda>b. bucket_metric b = m) (metricBucket it ms t rows v m') =
     (if m' = m then metricBucket it ms t rows v m else [])"
  by (auto simp: metricBucket_def bucket_metric_def bucket_key_def Let_def split: option.splits)

text \<open>The buckets of one vessel for one metric.\<close>

lemma vessel_buckets_of_metric:
  "filter (\<lambda>b. bucket_metric b = m) (concat (map (metricBucket it ms t rows v) ms')) =
     concat (map (\<lambda>m'. if m' = m then metricBucket it ms t rows v m else []) ms')"
  by (induction ms') (simp_all add: metricBucket_metric)

lemma vessel_buckets_append_null:
  assumes "column m = Some col" "col r = None"
  shows "filter (\<lambda>b. bucket_metric b = m) (concat (map (metricBucket it ms t (rows @ [r]) v) ms')) =
         filter (\<lambda>b. bucket_metric b = m) (concat (map (metricBucket it ms t rows v) ms'))"
  by (simp only: vessel_buckets_of_metric metricBucket_append_null [OF assms])

lemma no_bucket_without_rows:
  assumes "v \<notin> set (map vessel_id (filter (inWindow ms t) rows))"
  shows "metricBucket it ms t rows v m = []"
proof -
  have "filter (\<lambda>r. vessel_id r = v \<and> inWindow ms t r) rows = []"
    using assms by (auto simp: filter_empty_conv)
  then show ?thesis
    by (simp add: metricBucket_def nonNull_def List.map_filter_simps split: option.splits)
qed

lemma windowVessels_append:
  "windowVessels ms t (rows @ [r]) =
     (if inWindow ms t r \<and> vessel_id r \<notin> set (map vessel_id (filter (inWindow ms t) rows))
      then windowVessels ms t rows @ [vessel_id r]
      else windowVessels ms t rows)"
  by (auto simp: windowVessels_def)

lemma filter_concat_map:
  "filter Q (concat (map f xs)) = concat (map (\<lambda>x. filter Q (f x)) xs)"
  by (induction xs) simp_all

lemma newBuckets_append_null:
  assumes "column m = Some col" "col r = None"
  shows "filter (\<lambda>b. bucket_metric b = m) (newBuckets it ms t (rows @ [r])) =
         filter (\<lambda>b. bucket_metric b = m) (newBuckets it ms t rows)"
proof -
  let ?G = "\<lambda>rows v. filter (\<lambda>b. bucket_metric b = m) (concat (map (metricBucket it ms t rows v) metrics))"
  have same: "?G (rows @ [r]) v = ?G rows v" for v
    by (rule vessel_buckets_append_null [OF assms])
  have new: "?G rows (vessel_id r) = []"
    if "vessel_id r \<notin> set (map vessel_id (filter (inWindow ms t) rows))"
    using no_bucket_without_rows [OF that] by (auto simp: vessel_buckets_of_metric)
  have "filter (\<lambda>b. bucket_metric b = m) (newBuckets it ms t (rows @ [r])) =
          concat (map (?G (rows @ [r])) (windowVessels ms t (rows @ [r])))"
    unfolding newBuckets_def by (rule filter_concat_map)
  also have "\<dots> = concat (map (?G rows) (windowVessels ms t (rows @ [r])))"
    by (simp only: same)
  also have "\<dots> = concat (map (?G rows) (windowVessels ms t rows))"
    using new by (simp add: windowVessels_append del: set_map)
  also have "\<dots> = filter (\<lambda>b. bucket_metric b = m) (newBuckets it ms t rows)"
    unfolding newBuckets_def by (rule filter_concat_map [symmetric])
  finally show ?thesis .
qed

lemma history_append_null:
  assumes "column m = Some col" "col r = None"
    and "telemetry db' = telemetry db @ [r]" "telemetry_aggregates db' = telemetry_aggregates db"
  shows "getHistoricalData v m timeRange t db' = getHistoricalData v m timeRange t db"
  by (simp add: getHistoricalData_def assms Let_def)

lemma statistics_append_null:
  assumes "column m = Some col" "col r = None"
    and "telemetry db' = telemetry db @ [r]"
  shows "getStatistics v m timeRange t db' = getStatistics v m timeRange t db"
proof -
  have e: "nonNull col (filter Q (telemetry db')) = nonNull col (filter Q (telemetry db))" for Q
    unfolding assms(3) by (rule nonNull_append_null [of col r, OF assms(2)])
  show ?thesis
    by (simp only: getStatistics_def assms(1) option.case e)
qed

text \<open>What \<open>saveTelemetry\<close> does to the tables.\<close>

lemma saveTelemetry_cases:
  assumes "saveTelemetry now vd db = Some db'"
  shows "db' = db \<or>
         (\<exists>vid. telemetry db' = telemetry db @ [insertedRow (Suc (telemetry_seq db)) now vid (telemetryParams vd)] \<and>
                telemetry_aggregates db' = telemetry_aggregates db)"
  using assms by (auto simp: saveTelemetry_def Let_def split: if_splits option.splits)

text \<open>A falsy reading of a metric is stored as \<open>NULL\<close> in the metric's column.\<close>

lemma falsy_cell:
  assumes "(m, src) \<in> set
        [(''engine_rpm'', js_get (js_get vd ''engine'') ''rpm''),
         (''engine_temp'', js_get (js_get vd ''engine'') ''temperature''),
         (''fuel_flow'', js_get (js_get vd ''engine'') ''fuelFlow''),
         (''battery_soc'', js_get (js_get vd ''power'') ''batterySOC''),
         (''voltage'', js_get (js_get vd ''power'') ''voltage''),
         (''generator_load'', js_get (js_get vd ''power'') ''generatorLoad''),
         (''speed'', js_or (js_get (js_get vd ''navigation'') ''speed'') (js_get (js_get vd ''location'') ''speed'')),
         (''bilge_level'', js_get (js_get vd ''safety'') ''bilgeLevel''),
         (''co2_level'', js_get (js_get vd ''safety'') ''co2Level'')]"
    and "\<not> truthy src"
  shows "\<exists>col. column m = Some col \<and> (\<forall>n now vid. col (insertedRow n now vid (telemetryParams vd)) = None)"
proof -
  have f: "js_or src JNull = JNull"
    using assms(2) by (simp add: js_or_def)
  have cell: "param (telemetryParams vd) m = js_or src JNull \<Longrightarrow>
              real_cell (telemetryParams vd) m = None"
    by (simp add: real_cell_def f)
  from assms(1) have "(m, src) = (''engine_rpm'', js_get (js_get vd ''engine'') ''rpm'') \<or>
         (m, src) = (''engine_temp'', js_get (js_get vd ''engine'') ''temperature'') \<or>
         (m, src) = (''fuel_flow'', js_get (js_get vd ''engine'') ''fuelFlow'') \<or>
         (m, src) = (''battery_soc'', js_get (js_get vd ''power'') ''batterySOC'') \<or>
         (m, src) = (''voltage'', js_get (js_get vd ''power'') ''voltage'') \<or>
         (m, src) = (''generator_load'', js_get (js_get vd ''power'') ''generatorLoad'') \<or>
         (m, src) = (''speed'', js_or (js_get (js_get vd ''navigation'') ''speed'') (js_get (js_get vd ''location'') ''speed'')) \<or>
         (m, src) = (''bilge_level'', js_get (js_get vd ''safety'') ''bilgeLevel'') \<or>
         (m, src) = (''co2_level'', js_get (js_get vd ''safety'') ''co2Level'')"
    by (simp only: list.set insert_iff empty_iff simp_thms)
  then show ?thesis
  proof (elim disjE)
    assume "(m, src) = (''engine_rpm'', js_get (js_get vd ''engine'') ''rpm'')"
    then have m: "m = ''engine_rpm''" and "param (telemetryParams vd) m = js_or src JNull"
      by (simp_all add: param_def telemetryParams_def Let_def)
    then show ?thesis using cell by (simp add: column_def insertedRow_def)
  next
    assume "(m, src) = (''engine_temp'', js_get (js_get vd ''engine'') ''temperature'')"
    then have m: "m = ''engine_temp''" and "param (telemetryParams vd) m = js_or src JNull"
      by (simp_all add: param_def telemetryParams_def Let_def)
    then show ?thesis using cell by (simp add: column_def insertedRow_def)
  next
    assume "(m, src) = (''fuel_flow'', js_get (js_get vd ''engine'') ''fuelFlow'')"
    then have m: "m = ''fuel_flow''" and "param (telemetryParams vd) m = js_or src JNull"
      by (simp_all add: param_def telemetryParams_def Let_def)
    then show ?thesis using cell by (simp add: column_def insertedRow_def)
  next
    assume "(m, src) = (''battery_soc'', js_get (js_get vd ''power'') ''batterySOC'')"
    then have m: "m = ''battery_soc''" and "param (telemetryParams vd) m = js_or src JNull"
      by (simp_all add: param_def telemetryParams_def Let_def)
    then show ?thesis using cell by (simp add: column_def insertedRow_def)
  next
    assume "(m, src) = (''voltage'', js_get (js_get vd ''power'') ''voltage'')"
    then have m: "m = ''voltage''" and "param (telemetryParams vd) m = js_or src JNull"
      by (simp_all add: param_def telemetryParams_def Let_def)
    then show ?thesis using cell by (simp add: column_def insertedRow_def)
  next
    assume "(m, src) = (''generator_load'', js_get (js_get vd ''power'') ''generatorLoad'')"
    then have m: "m = ''generator_load''" and "param (telemetryParams vd) m = js_or src JNull"
      by (simp_all add: param_def telemetryParams_def Let_def)
    then show ?thesis using cell by (simp add: column_def insertedRow_def)
  next
    assume "(m, src) = (''speed'', js_or (js_get (js_get vd ''navigation'') ''speed'') (js_get (js_get vd ''location'') ''speed''))"
    then have m: "m = ''speed''" and "param (telemetryParams vd) m = js_or src JNull"
      by (simp_all add: param_def telemetryParams_def Let_def)
    then show ?thesis using cell by (simp add: column_def insertedRow_def)
  next
    assume "(m, src) = (''bilge_level'', js_get (js_get vd ''safety'') ''bilgeLevel'')"
    then have m: "m = ''bilge_level''" and "param (telemetryParams vd) m = js_or src JNull"
      by (simp_all add: param_def telemetryParams_def Let_def)
    then show ?thesis using cell by (simp add: column_def insertedRow_def)
  next
    assume "(m, src) = (''co2_level'', js_get (js_get vd ''safety'') ''co2Level'')"
    then have m: "m = ''co2_level''" and "param (telemetryParams vd) m = js_or src JNull"
      by (simp_all add: param_def telemetryParams_def Let_def)
    then show ?thesis using cell by (simp add: column_def insertedRow_def)
  qed
qed

text \<open>
  C10. \<open>saveTelemetry\<close> passes each metric through \<open>|| null\<close>. So when the reading
  of one of the nine metrics is falsy (a genuine zero is: 0 rpm, a speed of 0, a fuel flow
  of 0), and the sample is saved, the row that is added holds \<open>NULL\<close> in the metric's
  column (no row is added when the vessel id is missing), and the sample changes nothing
  in what the store answers for that metric: the time-range query, the statistics, and the
  buckets that an aggregation run inserts are those of the table without it. The speed
  is read from \<open>navigation.speed\<close> and, when that is falsy, from \<open>location.speed\<close>.
\<close>

theorem C10_falsy_reading_stored_as_null:
  assumes "(m, src) \<in> set
        [(''engine_rpm'', js_get (js_get vd ''engine'') ''rpm''),
         (''engine_temp'', js_get (js_get vd ''engine'') ''temperature''),
         (''fuel_flow'', js_get (js_get vd ''engine'') ''fuelFlow''),
         (''battery_soc'', js_get (js_get vd ''power'') ''batterySOC''),
         (''voltage'', js_get (js_get vd ''power'') ''voltage''),
         (''generator_load'', js_get (js_get vd ''power'') ''generatorLoad''),
         (''speed'', js_or (js_get (js_get vd ''navigation'') ''speed'') (js_get (js_get vd ''location'') ''speed'')),
         (''bilge_level'', js_get (js_get vd ''safety'') ''bilgeLevel''),
         (''co2_level'', js_get (js_get vd ''safety'') ''co2Level'')]"
    and "\<not> truthy src"
    and "saveTelemetry now vd db = Some db'"
  shows "\<exists>col. column m = Some col \<and>
           (db' = db \<or> (\<exists>r. telemetry db' = telemetry db @ [r] \<and> col r = None)) \<and>
           getHistoricalData v m timeRange t db' = getHistoricalData v m timeRange t db \<and>
           getStatistics v m timeRange t db' = getStatistics v m timeRange t db \<and>
           filter (\<lambda>b. bucket_metric b = m) (newBuckets intervalType ms t (telemetry db')) =
             filter (\<lambda>b. bucket_metric b = m) (newBuckets intervalType ms t (telemetry db))"
proof -
  from falsy_cell [OF assms(1,2)] obtain col
    where col: "column m = Some col"
      and null: "\<And>n now vid. col (insertedRow n now vid (telemetryParams vd)) = None"
    by blast
  from saveTelemetry_cases [OF assms(3)] show ?thesis
  proof
    assume "db' = db"
    then show ?thesis using col by simp
  next
    assume "\<exists>vid. telemetry db' = telemetry db @ [insertedRow (Suc (telemetry_seq db)) now vid (telemetryParams vd)] \<and>
                telemetry_aggregates db' = telemetry_aggregates db"
    then obtain vid
      where t: "telemetry db' = telemetry db @ [insertedRow (Suc (telemetry_seq db)) now vid (telemetryParams vd)]"
        and a: "telemetry_aggregates db' = telemetry_aggregates db"
      by blast
    let ?r = "insertedRow (Suc (telemetry_seq db)) now vid (telemetryParams vd)"
    have n: "col ?r = None"
      by (rule null)
    have "getHistoricalData v m timeRange t db' = getHistoricalData v m timeRange t db"
      by (rule history_append_null [OF col n t a])
    moreover have "getStatistics v m timeRange t db' = getStatistics v m timeRange t db"
      by (rule statistics_append_null [OF col n t])
    moreover have "filter (\<lambda>b. bucket_metric b = m) (newBuckets intervalType ms t (telemetry db')) =
             filter (\<lambda>b. bucket_metric b = m) (newBuckets intervalType ms t (telemetry db))"
      unfolding t by (rule newBuckets_append_null [OF col n])
    ultimately show ?thesis
      using col n t by blast
  qed
qed

lemma idle_saved:
  "saveTelemetry noon idleVessel emptyDatabase =
     Some (emptyDatabase\<lparr>telemetry := [insertedRow 1 noon ''v1'' (telemetryParams idleVessel)],
                         telemetry_seq := 1\<rparr>)"
proof -
  have p: "telemetryParams idleVessel =
      [(''vessel_id'', JStr ''v1''), (''engine_rpm'', JNull), (''engine_temp'', JNum 75),
       (''fuel_flow'', JNull), (''battery_soc'', JNull), (''voltage'', JNull), (''generator_load'', JNull),
       (''speed'', JNull), (''heading'', JNull), (''latitude'', JNull), (''longitude'', JNull),
       (''bilge_level'', JNull), (''co2_level'', JNull), (''operational_state'', JNull)]"
    by (simp add: telemetryParams_def idleVessel_def js_get_JObj js_or_def Let_def)
  show ?thesis
    unfolding saveTelemetry_def Let_def
    by (simp add: p bindable_def param_def numericColumns_def text_cell_def emptyDatabase_def)
qed

text \<open>
  An idle vessel, 0 rpm at 75 degrees, is sampled at noon into an empty table. The row
  holds \<open>NULL\<close> for the rpm and 75 for the temperature; a second later the last hour
  has no rpm value and one temperature value, and the rpm statistics count nothing.
\<close>

theorem C10_falsy_reading_stored_as_null_witness:
  "map_option
     (\<lambda>db'. (map engine_rpm (telemetry db'), map engine_temp (telemetry db'),
             getHistoricalData ''v1'' ''engine_rpm'' ''1h'' (noon + 1000) db',
             getHistoricalData ''v1'' ''engine_temp'' ''1h'' (noon + 1000) db',
             getStatistics ''v1'' ''engine_rpm'' ''1h'' (noon + 1000) db'))
     (saveTelemetry noon idleVessel emptyDatabase) =
   Some ([None], [Some 75], [], [(noon, Some 75)],
         JObj [(''min'', JNull), (''max'', JNull), (''avg'', JNull), (''count'', JNum 0)])"
proof -
  let ?db = "emptyDatabase\<lparr>telemetry := [insertedRow 1 noon ''v1'' (telemetryParams idleVessel)],
                             telemetry_seq := 1\<rparr>"
  have src: "js_get (js_get idleVessel ''engine'') ''rpm'' = JNum 0"
    by (simp add: idleVessel_def js_get_JObj)
  have p: "param (telemetryParams idleVessel) ''engine_rpm'' = JNull"
    "param (telemetryParams idleVessel) ''engine_temp'' = JNum 75"
    by (simp_all add: param_def telemetryParams_def idleVessel_def js_get_JObj js_or_def Let_def)
  have cells: "engine_rpm (insertedRow n noon ''v1'' (telemetryParams idleVessel)) = None"
    "engine_temp (insertedRow n noon ''v1'' (telemetryParams idleVessel)) = Some 75"
    "vessel_id (insertedRow n noon ''v1'' (telemetryParams idleVessel)) = ''v1''"
    "timestamp (insertedRow n noon ''v1'' (telemetryParams idleVessel)) = noon" for n
    by (simp_all add: insertedRow_def real_cell_def p)
  have e: "getHistoricalData ''v1'' ''engine_rpm'' ''1h'' (noon + 1000) emptyDatabase = []"
    "getStatistics ''v1'' ''engine_rpm'' ''1h'' (noon + 1000) emptyDatabase =
       JObj [(''min'', JNull), (''max'', JNull), (''avg'', JNull), (''count'', JNum 0)]"
    by (simp_all add: getHistoricalData_def getStatistics_def column_def emptyDatabase_def nonNull_def
          List.map_filter_simps sql_min_def sql_max_def sql_avg_def sqlNumber_def js_or_def Let_def)
  have "getHistoricalData ''v1'' ''engine_rpm'' ''1h'' (noon + 1000) ?db = [] \<and>
        getStatistics ''v1'' ''engine_rpm'' ''1h'' (noon + 1000) ?db =
          JObj [(''min'', JNull), (''max'', JNull), (''avg'', JNull), (''count'', JNum 0)]"
    using C10_falsy_reading_stored_as_null [OF _ _ idle_saved, of "''engine_rpm''" "JNum 0"
        "''v1''" "''1h''" "noon + 1000" "''5min''" 300000]
    by (auto simp: src e)
  moreover have "getHistoricalData ''v1'' ''engine_temp'' ''1h'' (noon + 1000) ?db = [(noon, Some 75)]"
    by (simp add: getHistoricalData_def column_def emptyDatabase_def hoursAgo_def cells Let_def)
  ultimately show ?thesis
    unfolding idle_saved by (simp add: cells)
qed

end
